theory Spec2Isabelle
  imports Main
begin

section \<open>Outcomes\<close>

text \<open>
  A shallow embedding of \<^verbatim>\<open>src/Storages/StorageS3Distributed.cpp\<close>: the worker-side row
  source \<^verbatim>\<open>StorageS3SequentialSource\<close> and \<^verbatim>\<open>StorageS3Distributed::read\<close>.
  Every function returns its outcome as a value. \<open>Thrown\<close> carries an exception that
  a \<^verbatim>\<open>throw Exception(...)\<close> of the file creates (lines 304 and 328); \<open>Propagated\<close>
  carries an exception that comes from a collaborator outside the file (the connection of
  a pull, the URI parser, the analysis of the rewritten query, the check of the columns)
  and passes through, or is caught and thrown again. The other constructors are the
  remaining ways the C++ leaves a function without returning: the failed cast of \<^verbatim>\<open>as<ASTLiteral &>\<close>,
  the failed \<^verbatim>\<open>safeGet<String>\<close>, the \<^verbatim>\<open>std::out_of_range\<close> of \<^verbatim>\<open>at\<close>, behaviour
  that the language leaves undefined (a null pointer dereferenced, an index past the
  end), and a failed \<^verbatim>\<open>assert\<close>.
\<close>

datatype error_code = LOGICAL_ERROR | OTHER_ERROR nat

datatype exception = Exception (message: string) (code: error_code)

datatype failure =
    Thrown exception
  | Propagated exception
  | BadCast
  | BadGet
  | OutOfRange
  | UndefinedBehaviour
  | AssertionFailed

section \<open>Cluster topology\<close>

text \<open>\<^verbatim>\<open>Cluster::Address\<close>, with the members the file reads.\<close>

record address =
  host_name :: string
  port :: nat
  user :: string
  password :: string
  cluster :: string
  cluster_secret :: string
  is_local :: bool

section \<open>Query trees\<close>

text \<open>
  An \<^verbatim>\<open>IAST\<close> node is a literal holding a \<^verbatim>\<open>Field\<close>, or any other node with its
  \<^verbatim>\<open>children\<close>. A table expression holds nullable pointers to a table name, a table
  function or a subquery. A select query is seen through its table expressions (what
  \<^verbatim>\<open>getTableExpressions\<close> returns) and the rest of its tree.
\<close>

datatype field = NullField | UInt64Field nat | StringField string

datatype ast = ASTLiteral field | ASTNode string "ast list"

fun children :: "ast \<Rightarrow> ast list" where
  "children (ASTLiteral v) = []"
| "children (ASTNode l cs) = cs"

record table_expression =
  database_and_table_name :: "ast option"
  table_function :: "ast option"
  subquery :: "ast option"

record select_query =
  tables :: "table_expression list"
  other_children :: "ast list"

type_synonym block = "string list"
type_synonym chunk = "string list"

datatype processing_stage = FetchColumns | WithMergeableState | Complete

record query_context =
  getCurrentQueryId :: string
  getInitialQueryId :: string
  getTCPPort :: nat
  getCurrentDatabase :: string
  initial_user :: string
  getScalars :: "(string \<times> string) list"

record metadata_snapshot =
  getSampleBlock :: block
  getColumns :: "string list"

section \<open>Connections and the pull protocol\<close>

record connection =
  conn_host :: string
  conn_port :: nat
  conn_default_database :: string
  conn_user :: string
  conn_password :: string
  conn_cluster :: string
  conn_cluster_secret :: string

record connection_pool =
  pool_max_connections :: nat
  pool_connection :: connection

record packet =
  ptype :: nat
  next_task :: string

text \<open>
  What one pull meets: \<^verbatim>\<open>connections->get\<close>, \<^verbatim>\<open>sendNextTaskRequest\<close> or
  \<^verbatim>\<open>receivePacket\<close> throws, or a packet arrives.
\<close>

datatype pull_outcome =
    GetFailed exception
  | SendFailed exception
  | ReceiveFailed exception
  | Received packet

datatype log_entry = LogTrace string | LogException exception

section \<open>Object storage\<close>

record s3_uri =
  uri_endpoint :: string
  uri_bucket :: string
  uri_key :: string

datatype s3_client = S3Client s3_uri string string nat

text \<open>\<^verbatim>\<open>ClientAuthentificationBuilder\<close> and \<^verbatim>\<open>StorageS3::ClientAuthentificaiton\<close>.\<close>

record auth_builder =
  access_key_id :: string
  secret_access_key :: string
  max_connections :: nat

record client_auth =
  auth_uri :: s3_uri
  auth_access_key_id :: string
  auth_secret_access_key :: string
  auth_max_connections :: nat
  auth_client :: "s3_client option"

text \<open>\<^verbatim>\<open>StorageS3SourceBuilder\<close>.\<close>

record source_builder =
  need_path :: bool
  need_file :: bool
  format :: string
  name :: string
  sample_block :: block
  builder_context :: query_context
  columns :: "string list"
  max_block_size :: nat
  compression_method :: string

text \<open>
  The per-object reader \<^verbatim>\<open>StorageS3Source\<close>: the arguments of its constructor, and the
  chunks it has still to deliver.
\<close>

record s3_source =
  rd_need_path :: bool
  rd_need_file :: bool
  rd_format :: string
  rd_name :: string
  rd_sample_block :: block
  rd_context :: query_context
  rd_columns :: "string list"
  rd_max_block_size :: nat
  rd_compression :: string
  rd_client :: "s3_client option"
  rd_bucket :: string
  rd_key :: string
  rd_pending :: "chunk list"

section \<open>Collaborators outside the file\<close>

text \<open>
  The functions and constants the file calls and does not define are parameters, held in
  one record: the hash of an address, the default-constructed address, the tree hash of a
  node, the query formatter, the analysis of the rewritten query, the final check of the
  requested columns, what the pulls of a source meet (by the pool they go through, the
  number of the pull and the query id sent), the value of \<^verbatim>\<open>Protocol::Server::NextTaskReply\<close>, whether assertions are compiled
  in, the parser of an S3 URI, the choice of a compression method, and the chunks stored
  under a bucket and key.
\<close>

record env =
  getHash :: "address \<Rightarrow> string"
  default_address :: address
  getTreeHash :: "ast \<Rightarrow> nat \<times> nat"
  queryToString :: "select_query \<Rightarrow> string"
  analyzeSampleBlock :: "select_query \<Rightarrow> exception + block"
  metadata_check :: "string list \<Rightarrow> exception option"
  channel :: "connection_pool \<Rightarrow> nat \<Rightarrow> string \<Rightarrow> pull_outcome"
  NextTaskReply :: nat
  debug_build :: bool
  S3_URI :: "string \<Rightarrow> exception + s3_uri"
  chooseCompressionMethod :: "string \<Rightarrow> string \<Rightarrow> string"
  object_chunks :: "string \<Rightarrow> string \<Rightarrow> chunk list"

text \<open>
  Modelled from the spec: \<^verbatim>\<open>StorageS3::updateClientAndAuthSettings\<close> is declared in
  \<^verbatim>\<open>StorageS3.h\<close>, which is not among the sources. It fills in the client of an
  authorization; the client is recorded here by what it was built from (the key's URI and
  the three members of the AuthContext).
\<close>

definition updateClientAndAuthSettings :: "query_context \<Rightarrow> client_auth \<Rightarrow> client_auth" where
  "updateClientAndAuthSettings ctx ca =
     ca\<lparr>auth_client := Some (S3Client (auth_uri ca) (auth_access_key_id ca)
            (auth_secret_access_key ca) (auth_max_connections ca))\<rparr>"

text \<open>
  Modelled from the spec: \<^verbatim>\<open>StorageS3Source::generate\<close> is defined in
  \<^verbatim>\<open>StorageS3.cpp\<close>, which is not among the sources. The reader yields its batches in
  order and the empty chunk once it has no more rows.
\<close>

definition StorageS3Source_generate :: "s3_source \<Rightarrow> chunk \<times> s3_source" where
  "StorageS3Source_generate r =
     (case rd_pending r of
        [] \<Rightarrow> ([], r)
      | c # cs \<Rightarrow> (c, r\<lparr>rd_pending := cs\<rparr>))"

section \<open>The worker's row source\<close>

text \<open>
  The members of \<^verbatim>\<open>StorageS3SequentialSource\<close>, and two observations of what it has done:
  \<open>pulls\<close> counts its calls of \<^verbatim>\<open>askAboutNextKey\<close>, and \<open>logged\<close> is what it has
  written to its logger.
\<close>

record sequential_source =
  src_header :: block
  initial_query_id :: string
  s3_source_builder :: source_builder
  cli_builder :: auth_builder
  inner :: "s3_source option"
  connections_pool :: connection_pool
  pulls :: nat
  logged :: "log_entry list"

definition getHeader :: "block \<Rightarrow> bool \<Rightarrow> bool \<Rightarrow> block" where
  "getHeader sample with_path_column with_file_column =
     (let b1 = (if with_path_column then sample @ [''_path''] else sample)
      in if with_file_column then b1 @ [''_file''] else b1)"

text \<open>
  \<^verbatim>\<open>askAboutNextKey\<close>. The assertion assigns \<^verbatim>\<open>NextTaskReply\<close> to the packet's type and
  tests the assigned value; it is compiled only into a debug build, where a failed
  assertion aborts and is not an exception the handler sees. Whatever is thrown inside the
  \<^verbatim>\<open>try\<close> block is logged and thrown again.
\<close>

definition askAboutNextKey :: "env \<Rightarrow> sequential_source \<Rightarrow> (failure + string) \<times> sequential_source" where
  "askAboutNextKey E s =
     (let s1 = s\<lparr>pulls := Suc (pulls s)\<rparr> in
      case channel E (connections_pool s) (pulls s) (initial_query_id s) of
        GetFailed e \<Rightarrow> (Inl (Propagated e), s1\<lparr>logged := logged s @ [LogException e]\<rparr>)
      | SendFailed e \<Rightarrow> (Inl (Propagated e), s1\<lparr>logged := logged s @ [LogException e]\<rparr>)
      | ReceiveFailed e \<Rightarrow> (Inl (Propagated e), s1\<lparr>logged := logged s @ [LogException e]\<rparr>)
      | Received p \<Rightarrow>
          (let p1 = p\<lparr>ptype := NextTaskReply E\<rparr> in
           if debug_build E \<and> ptype p1 = 0 then (Inl AssertionFailed, s1)
           else (Inr (next_task p1),
                 s1\<lparr>logged := logged s @ [LogTrace (''Got new task '' @ next_task p1)]\<rparr>)))"

definition createOrUpdateInnerSource :: "env \<Rightarrow> sequential_source \<Rightarrow> (failure + bool) \<times> sequential_source" where
  "createOrUpdateInnerSource E s =
     (case askAboutNextKey E s of
        (Inl f, s1) \<Rightarrow> (Inl f, s1)
      | (Inr next_string, s1) \<Rightarrow>
          if next_string = [] then (Inr False, s1)
          else
            (case S3_URI E next_string of
               Inl e \<Rightarrow> (Inl (Propagated e), s1)
             | Inr next_uri \<Rightarrow>
                 (let b = s3_source_builder s1;
                      client_auth = updateClientAndAuthSettings (builder_context b)
                        \<lparr>auth_uri = next_uri,
                         auth_access_key_id = access_key_id (cli_builder s1),
                         auth_secret_access_key = secret_access_key (cli_builder s1),
                         auth_max_connections = max_connections (cli_builder s1),
                         auth_client = None\<rparr>
                  in (Inr True,
                      s1\<lparr>inner := Some
                        \<lparr>rd_need_path = need_path b,
                         rd_need_file = need_file b,
                         rd_format = format b,
                         rd_name = name b,
                         rd_sample_block = sample_block b,
                         rd_context = builder_context b,
                         rd_columns = columns b,
                         rd_max_block_size = max_block_size b,
                         rd_compression = chooseCompressionMethod E
                            (uri_key (auth_uri client_auth)) (compression_method b),
                         rd_client = auth_client client_auth,
                         rd_bucket = uri_bucket (auth_uri client_auth),
                         rd_key = uri_key next_uri,
                         rd_pending = object_chunks E (uri_bucket (auth_uri client_auth))
                            (uri_key next_uri)\<rparr>\<rparr>))))"

definition generate :: "env \<Rightarrow> sequential_source \<Rightarrow> (failure + chunk) \<times> sequential_source" where
  "generate E s =
     (case inner s of
        None \<Rightarrow> (Inr [], s)
      | Some r \<Rightarrow>
          (let (chunk, r1) = StorageS3Source_generate r;
               s1 = s\<lparr>inner := Some r1\<rparr>
           in if chunk \<noteq> [] then (Inr chunk, s1)
              else
                (case createOrUpdateInnerSource E s1 of
                   (Inl f, s2) \<Rightarrow> (Inl f, s2)
                 | (Inr False, s2) \<Rightarrow> (Inr [], s2)
                 | (Inr True, s2) \<Rightarrow>
                     (case inner s2 of
                        None \<Rightarrow> (Inl UndefinedBehaviour, s2)
                      | Some r2 \<Rightarrow>
                          (let (chunk2, r3) = StorageS3Source_generate r2
                           in (Inr chunk2, s2\<lparr>inner := Some r3\<rparr>))))))"

text \<open>
  The constructor: the member initialisers and the pool towards the initiator give
  \<open>new_source\<close>; the body then pulls once.
\<close>

definition initiator_pool :: "address \<Rightarrow> query_context \<Rightarrow> connection_pool" where
  "initiator_pool initiator ctx =
     \<lparr>pool_max_connections = 3,
      pool_connection =
        \<lparr>conn_host = host_name initiator,
         conn_port = port initiator,
         conn_default_database = getCurrentDatabase ctx,
         conn_user = initial_user ctx,
         conn_password = password initiator,
         conn_cluster = cluster initiator,
         conn_cluster_secret = cluster_secret initiator\<rparr>\<rparr>"

definition new_source :: "string \<Rightarrow> address \<Rightarrow> auth_builder \<Rightarrow> source_builder \<Rightarrow> sequential_source" where
  "new_source query_id initiator client_auth_builder s3_builder =
     \<lparr>src_header = getHeader (sample_block s3_builder) (need_path s3_builder) (need_file s3_builder),
      initial_query_id = query_id,
      s3_source_builder = s3_builder,
      cli_builder = client_auth_builder,
      inner = None,
      connections_pool = initiator_pool initiator (builder_context s3_builder),
      pulls = 0,
      logged = []\<rparr>"

definition StorageS3SequentialSource ::
  "env \<Rightarrow> string \<Rightarrow> address \<Rightarrow> auth_builder \<Rightarrow> source_builder \<Rightarrow> (failure + bool) \<times> sequential_source" where
  "StorageS3SequentialSource E query_id initiator client_auth_builder s3_builder =
     createOrUpdateInnerSource E (new_source query_id initiator client_auth_builder s3_builder)"

section \<open>The storage and its read\<close>

record remote_stream =
  stream_connection :: connection
  stream_query :: string
  stream_header :: block
  stream_scalars :: "(string \<times> string) list"
  stream_stage :: processing_stage

datatype pipe = SourcePipe sequential_source | UnitedPipes "remote_stream list"

text \<open>
  \<^verbatim>\<open>StorageS3Distributed\<close>: \<open>shards\<close> is \<^verbatim>\<open>cluster->getShardsAddresses()\<close>, and
  \<open>connections\<close> is the member that \<^verbatim>\<open>read\<close> appends to.
\<close>

record storage =
  tree_hash :: "nat \<times> nat"
  address_hash_or_filename :: string
  cluster_name :: string
  shards :: "address list list"
  format_name :: string
  storage_compression_method :: string
  storage_cli_builder :: auth_builder
  storage_name :: string
  connections :: "connection list"

text \<open>
  Lines 249 to 256, the worker looks for the initiator. The \<^verbatim>\<open>break\<close> leaves the inner
  loop only: within one shard the first node with the received hash is taken, and the
  scan goes on with the next shard.
\<close>

fun initiator_in_replicas :: "env \<Rightarrow> string \<Rightarrow> address list \<Rightarrow> address \<Rightarrow> address" where
  "initiator_in_replicas E h [] initiator = initiator"
| "initiator_in_replicas E h (node # replicas) initiator =
     (if getHash E node = h then node else initiator_in_replicas E h replicas initiator)"

fun initiator_in_shards :: "env \<Rightarrow> string \<Rightarrow> address list list \<Rightarrow> address \<Rightarrow> address" where
  "initiator_in_shards E h [] initiator = initiator"
| "initiator_in_shards E h (replicas # rest) initiator =
     initiator_in_shards E h rest (initiator_in_replicas E h replicas initiator)"

definition find_initiator :: "env \<Rightarrow> storage \<Rightarrow> address" where
  "find_initiator E st =
     initiator_in_shards E (address_hash_or_filename st) (shards st) (default_address E)"

text \<open>Lines 293 to 300, the initiator looks for itself; the loops have the same shape.\<close>

fun self_in_replicas :: "env \<Rightarrow> nat \<Rightarrow> address list \<Rightarrow> string \<Rightarrow> string" where
  "self_in_replicas E tcp [] hash_of_address = hash_of_address"
| "self_in_replicas E tcp (node # replicas) hash_of_address =
     (if is_local node \<and> port node = tcp then getHash E node
      else self_in_replicas E tcp replicas hash_of_address)"

fun self_in_shards :: "env \<Rightarrow> nat \<Rightarrow> address list list \<Rightarrow> string \<Rightarrow> string" where
  "self_in_shards E tcp [] hash_of_address = hash_of_address"
| "self_in_shards E tcp (replicas # rest) hash_of_address =
     self_in_shards E tcp rest (self_in_replicas E tcp replicas hash_of_address)"

text \<open>
  Lines 316 to 321: \<^verbatim>\<open>children.at(0)\<close> throws on a node without children,
  \<^verbatim>\<open>arguments[1]\<close> is undefined on fewer than two arguments, \<^verbatim>\<open>as<ASTLiteral &>\<close>
  throws on a node that is no literal and \<^verbatim>\<open>safeGet<String>\<close> on a field that holds
  no string. Otherwise the string of the second argument is assigned.
\<close>

definition set_bucket :: "string \<Rightarrow> ast \<Rightarrow> failure + ast" where
  "set_bucket hash_of_address table_function_ast =
     (case table_function_ast of
        ASTLiteral v \<Rightarrow> Inl OutOfRange
      | ASTNode f [] \<Rightarrow> Inl OutOfRange
      | ASTNode f (list # others) \<Rightarrow>
          (case children list of
             [] \<Rightarrow> Inl UndefinedBehaviour
           | [a0] \<Rightarrow> Inl UndefinedBehaviour
           | a0 # a1 # args \<Rightarrow>
               (case a1 of
                  ASTNode l cs \<Rightarrow> Inl BadCast
                | ASTLiteral NullField \<Rightarrow> Inl BadGet
                | ASTLiteral (UInt64Field n) \<Rightarrow> Inl BadGet
                | ASTLiteral (StringField bucket) \<Rightarrow>
                    (case list of
                       ASTLiteral v \<Rightarrow> Inl UndefinedBehaviour
                     | ASTNode l cs \<Rightarrow>
                         Inr (ASTNode f
                           (ASTNode l (a0 # ASTLiteral (StringField hash_of_address) # args)
                            # others))))))"

text \<open>
  Lines 310 to 325, over the table expressions of the cloned query. \<open>seen\<close> are the
  expressions already passed. The pointer to the table function is dereferenced
  unchecked. At the first table function with the stored tree hash the bucket is
  overwritten in the tree, the whole tree is formatted and the loop ends; without one
  the tree is unchanged and \<^verbatim>\<open>remote_query\<close> stays empty. The dump of the matching
  node to the standard output is left out.
\<close>

fun rewrite_loop ::
  "env \<Rightarrow> nat \<times> nat \<Rightarrow> string \<Rightarrow> select_query \<Rightarrow> table_expression list \<Rightarrow> table_expression list
   \<Rightarrow> failure + select_query \<times> string" where
  "rewrite_loop E th hash_of_address q seen [] = Inr (q, [])"
| "rewrite_loop E th hash_of_address q seen (te # rest) =
     (case table_function te of
        None \<Rightarrow> Inl UndefinedBehaviour
      | Some table_function_ast \<Rightarrow>
          if getTreeHash E table_function_ast = th then
            (case set_bucket hash_of_address table_function_ast of
               Inl f \<Rightarrow> Inl f
             | Inr rewritten \<Rightarrow>
                 (let remote_query_ast =
                        q\<lparr>tables := seen @ te\<lparr>table_function := Some rewritten\<rparr> # rest\<rparr>
                  in Inr (remote_query_ast, queryToString E remote_query_ast)))
          else rewrite_loop E th hash_of_address q (seen @ [te]) rest)"

text \<open>Lines 338 to 363: one connection and one stream for every node of every shard.\<close>

definition node_connection :: "query_context \<Rightarrow> address \<Rightarrow> connection" where
  "node_connection ctx node =
     \<lparr>conn_host = host_name node,
      conn_port = port node,
      conn_default_database = getCurrentDatabase ctx,
      conn_user = user node,
      conn_password = password node,
      conn_cluster = cluster node,
      conn_cluster_secret = cluster_secret node\<rparr>"

fun connect_replicas ::
  "query_context \<Rightarrow> string \<Rightarrow> block \<Rightarrow> processing_stage \<Rightarrow> address list
   \<Rightarrow> connection list \<times> remote_stream list \<Rightarrow> connection list \<times> remote_stream list" where
  "connect_replicas ctx remote_query header stage [] acc = acc"
| "connect_replicas ctx remote_query header stage (node # replicas) (conns, pipes) =
     connect_replicas ctx remote_query header stage replicas
       (conns @ [node_connection ctx node],
        pipes @ [\<lparr>stream_connection = node_connection ctx node,
                  stream_query = remote_query,
                  stream_header = header,
                  stream_scalars = getScalars ctx,
                  stream_stage = stage\<rparr>])"

fun connect_shards ::
  "query_context \<Rightarrow> string \<Rightarrow> block \<Rightarrow> processing_stage \<Rightarrow> address list list
   \<Rightarrow> connection list \<times> remote_stream list \<Rightarrow> connection list \<times> remote_stream list" where
  "connect_shards ctx remote_query header stage [] acc = acc"
| "connect_shards ctx remote_query header stage (replicas # rest) acc =
     connect_shards ctx remote_query header stage rest
       (connect_replicas ctx remote_query header stage replicas acc)"

text \<open>
  \<^verbatim>\<open>StorageS3Distributed::read\<close>. The result is the pipe or the failure, and the storage
  with its connections as the call leaves them.
\<close>

definition read ::
  "env \<Rightarrow> storage \<Rightarrow> string list \<Rightarrow> metadata_snapshot \<Rightarrow> select_query \<Rightarrow> query_context
   \<Rightarrow> processing_stage \<Rightarrow> nat \<Rightarrow> (failure + pipe) \<times> storage" where
  "read E st column_names metadata query ctx processed_stage block_size =
     (if getCurrentQueryId ctx \<noteq> getInitialQueryId ctx then
        (let initiator = find_initiator E st;
             s3builder =
               \<lparr>need_path = (''_path'' \<in> set column_names),
                need_file = (''_file'' \<in> set column_names),
                format = format_name st,
                name = storage_name st,
                sample_block = getSampleBlock metadata,
                builder_context = ctx,
                columns = getColumns metadata,
                max_block_size = block_size,
                compression_method = storage_compression_method st\<rparr>
         in case StorageS3SequentialSource E (getInitialQueryId ctx) initiator
                   (storage_cli_builder st) s3builder of
              (Inl f, src) \<Rightarrow> (Inl f, st)
            | (Inr b, src) \<Rightarrow> (Inr (SourcePipe src), st))
      else
        (let hash_of_address = self_in_shards E (getTCPPort ctx) (shards st) []
         in if hash_of_address = [] then
              (Inl (Thrown (Exception ''Could not find outself in cluster '' LOGICAL_ERROR)), st)
            else
              (case rewrite_loop E (tree_hash st) hash_of_address query [] (tables query) of
                 Inl f \<Rightarrow> (Inl f, st)
               | Inr (remote_query_ast, remote_query) \<Rightarrow>
                   if remote_query = [] then
                     (Inl (Thrown (Exception ''No table function'' LOGICAL_ERROR)), st)
                   else
                     (case analyzeSampleBlock E remote_query_ast of
                        Inl e \<Rightarrow> (Inl (Propagated e), st)
                      | Inr header \<Rightarrow>
                          (let (conns, pipes) = connect_shards ctx remote_query header
                                 processed_stage (shards st) (connections st, []);
                               st1 = st\<lparr>connections := conns\<rparr>
                           in case metadata_check E column_names of
                                Some e \<Rightarrow> (Inl (Propagated e), st1)
                              | None \<Rightarrow> (Inr (UnitedPipes pipes), st1))))))"

section \<open>The initiator's answers to pulls\<close>

text \<open>
  Modelled from the spec: the initiator's side of the Task Pull Channel (the handler that
  answers a NextTaskRequest from the key-listing sequence) is not among the sources. The
  spec has the sequence consumed under mutual exclusion: each pull atomically takes the
  next key or observes exhaustion, and the reply to an exhausted sequence is the empty
  string. Pulls of concurrent workers are therefore served one after the other, in some
  order; \<open>serve_pulls\<close> answers the pulls of the workers in the order given.
\<close>

definition serve_pull :: "string list \<Rightarrow> string \<times> string list" where
  "serve_pull keys = (case keys of [] \<Rightarrow> ([], []) | k # rest \<Rightarrow> (k, rest))"

fun serve_pulls :: "'w list \<Rightarrow> string list \<Rightarrow> ('w \<times> string) list" where
  "serve_pulls [] keys = []"
| "serve_pulls (w # ws) keys = (w, fst (serve_pull keys)) # serve_pulls ws (snd (serve_pull keys))"

section \<open>Concrete inputs\<close>

text \<open>
  A session on port 9000, three cluster nodes (the last two on one host, told apart by
  their ports only), and collaborators that can be evaluated: the hash of an address is
  derived from its host name, a key is split at its first slash into bucket and object,
  and the object \<open>k1\<close> of any bucket holds one batch of one row.
\<close>

definition example_context :: "string \<Rightarrow> query_context" where
  "example_context current_id =
     \<lparr>getCurrentQueryId = current_id,
      getInitialQueryId = ''q1'',
      getTCPPort = 9000,
      getCurrentDatabase = ''default'',
      initial_user = ''reader'',
      getScalars = []\<rparr>"

definition node1 :: address where
  "node1 = \<lparr>host_name = ''n1'', port = 9000, user = ''u'', password = ''p'',
            cluster = ''c'', cluster_secret = ''s'', is_local = True\<rparr>"

definition node2 :: address where
  "node2 = \<lparr>host_name = ''n2'', port = 9000, user = ''u'', password = ''p'',
            cluster = ''c'', cluster_secret = ''s'', is_local = False\<rparr>"

definition node3 :: address where
  "node3 = \<lparr>host_name = ''n2'', port = 9001, user = ''u'', password = ''p'',
            cluster = ''c'', cluster_secret = ''s'', is_local = False\<rparr>"

definition example_URI :: "string \<Rightarrow> exception + s3_uri" where
  "example_URI s =
     (if CHR ''/'' \<in> set s then
        Inr \<lparr>uri_endpoint = ''s3'',
             uri_bucket = takeWhile (\<lambda>c. c \<noteq> CHR ''/'') s,
             uri_key = drop 1 (dropWhile (\<lambda>c. c \<noteq> CHR ''/'') s)\<rparr>
      else Inl (Exception ''Bucket or key name are invalid in S3 URI'' (OTHER_ERROR 36)))"

text \<open>
  The bucket slot of a table function: the string literal that is the second of the
  children of its first child.
\<close>

definition bucket_of :: "ast \<Rightarrow> string option" where
  "bucket_of table_function_ast =
     (case children table_function_ast of
        [] \<Rightarrow> None
      | list # others \<Rightarrow>
          (case children list of
             a0 # ASTLiteral (StringField bucket) # args \<Rightarrow> Some bucket
           | _ \<Rightarrow> None))"

text \<open>The queries of the streams of a pipe.\<close>

fun pipe_queries :: "pipe \<Rightarrow> string list" where
  "pipe_queries (SourcePipe src) = []"
| "pipe_queries (UnitedPipes streams) = map stream_query streams"

text \<open>
  A formatter for the examples: the table expressions in order, a table function with its
  name and arguments, string literals in brackets.
\<close>

fun format_ast :: "ast \<Rightarrow> string" where
  "format_ast (ASTLiteral NullField) = ''NULL''"
| "format_ast (ASTLiteral (UInt64Field n)) = ''#''"
| "format_ast (ASTLiteral (StringField s)) = ''['' @ s @ '']''"
| "format_ast (ASTNode l cs) = l @ ''('' @ concat (map format_ast cs) @ '')''"

definition example_format :: "select_query \<Rightarrow> string" where
  "example_format q =
     ''FROM'' @ concat (map (\<lambda>te. case table_function te of
                                    None \<Rightarrow> '' t''
                                  | Some f \<Rightarrow> '' '' @ format_ast f) (tables q))"

definition example_env ::
  "(ast \<Rightarrow> nat \<times> nat) \<Rightarrow> (connection_pool \<Rightarrow> nat \<Rightarrow> string \<Rightarrow> pull_outcome) \<Rightarrow> env" where
  "example_env tree_hash_of replies =
     \<lparr>getHash = (\<lambda>a. ''H-'' @ host_name a),
      default_address = \<lparr>host_name = [], port = 0, user = [], password = [],
                         cluster = [], cluster_secret = [], is_local = False\<rparr>,
      getTreeHash = tree_hash_of,
      queryToString = example_format,
      analyzeSampleBlock = (\<lambda>q. Inr [''c1'']),
      metadata_check = (\<lambda>cols. None),
      channel = replies,
      NextTaskReply = 13,
      debug_build = True,
      S3_URI = example_URI,
      chooseCompressionMethod = (\<lambda>k m. m),
      object_chunks = (\<lambda>b k. if k = ''k1'' then [[''row1'']] else [])\<rparr>"

definition no_tree_hash :: "ast \<Rightarrow> nat \<times> nat" where
  "no_tree_hash t = (0, 0)"

definition example_builder :: source_builder where
  "example_builder =
     \<lparr>need_path = False, need_file = False, format = ''CSV'', name = ''S3Distributed'',
      sample_block = [''c1''], builder_context = example_context ''q2'',
      columns = [''c1''], max_block_size = 8192, compression_method = ''auto''\<rparr>"

definition example_auth :: auth_builder where
  "example_auth = \<lparr>access_key_id = ''AK'', secret_access_key = ''SK'', max_connections = 4\<rparr>"

text \<open>Replies of an initiator that holds the one key \<open>b/k1\<close>, and of one that holds none.\<close>

definition one_key_replies :: "connection_pool \<Rightarrow> nat \<Rightarrow> string \<Rightarrow> pull_outcome" where
  "one_key_replies pool n qid =
     Received \<lparr>ptype = 13, next_task = (if n = 0 then ''b/k1'' else [])\<rparr>"

definition no_key_replies :: "connection_pool \<Rightarrow> nat \<Rightarrow> string \<Rightarrow> pull_outcome" where
  "no_key_replies pool n qid = Received \<lparr>ptype = 13, next_task = []\<rparr>"

text \<open>A reply that carries the key \<open>b/k1\<close> under the packet type 2.\<close>

definition mistyped_replies :: "connection_pool \<Rightarrow> nat \<Rightarrow> string \<Rightarrow> pull_outcome" where
  "mistyped_replies pool n qid = Received \<lparr>ptype = 2, next_task = ''b/k1''\<rparr>"

definition second_key_replies :: "connection_pool \<Rightarrow> nat \<Rightarrow> string \<Rightarrow> pull_outcome" where
  "second_key_replies pool n qid = Received \<lparr>ptype = 13, next_task = ''b/k2''\<rparr>"

text \<open>A reply that carries a non-empty key without a slash, which \<open>example_URI\<close> rejects.\<close>

definition unparsable_replies :: "connection_pool \<Rightarrow> nat \<Rightarrow> string \<Rightarrow> pull_outcome" where
  "unparsable_replies pool n qid = Received \<lparr>ptype = 13, next_task = ''nokey''\<rparr>"

definition broken_replies :: "connection_pool \<Rightarrow> nat \<Rightarrow> string \<Rightarrow> pull_outcome" where
  "broken_replies pool n qid = ReceiveFailed (Exception ''Timeout exceeded'' (OTHER_ERROR 209))"

text \<open>
  The states of a worker's source against the initiator with one key: as constructed,
  and after one and two row requests.
\<close>

definition idle_source :: sequential_source where
  "idle_source = new_source ''q1'' node1 example_auth example_builder"

definition run0 :: sequential_source where
  "run0 = snd (StorageS3SequentialSource (example_env no_tree_hash one_key_replies) ''q1'' node1
                 example_auth example_builder)"

definition run1 :: sequential_source where
  "run1 = snd (generate (example_env no_tree_hash one_key_replies) run0)"

definition run2 :: sequential_source where
  "run2 = snd (generate (example_env no_tree_hash one_key_replies) run1)"

text \<open>
  Queries: the call \<open>s3Distributed(cluster1, b, CSV)\<close> as a table function, a plain table,
  and a tree hash that tells the call on \<open>real-bucket\<close> from every other node.
\<close>

definition s3_call :: "string \<Rightarrow> ast" where
  "s3_call b =
     ASTNode ''s3Distributed''
       [ASTNode ''args'' [ASTLiteral (StringField ''cluster1''), ASTLiteral (StringField b),
                          ASTLiteral (StringField ''CSV'')]]"

definition function_expression :: "ast \<Rightarrow> table_expression" where
  "function_expression f =
     \<lparr>database_and_table_name = None, table_function = Some f, subquery = None\<rparr>"

definition plain_table :: table_expression where
  "plain_table =
     \<lparr>database_and_table_name = Some (ASTNode ''t'' []), table_function = None,
      subquery = None\<rparr>"

definition example_tree_hash :: "ast \<Rightarrow> nat \<times> nat" where
  "example_tree_hash t = (if t = s3_call ''real-bucket'' then (1, 1) else (0, 0))"

definition example_query :: "table_expression list \<Rightarrow> select_query" where
  "example_query tes = \<lparr>tables = tes, other_children = []\<rparr>"

definition example_storage :: "address list list \<Rightarrow> string \<Rightarrow> storage" where
  "example_storage topology h =
     \<lparr>tree_hash = (1, 1),
      address_hash_or_filename = h,
      cluster_name = ''cluster1'',
      shards = topology,
      format_name = ''CSV'',
      storage_compression_method = ''auto'',
      storage_cli_builder = example_auth,
      storage_name = ''S3Distributed'',
      connections = []\<rparr>"

definition example_metadata :: metadata_snapshot where
  "example_metadata = \<lparr>getSampleBlock = [''c1''], getColumns = [''c1'']\<rparr>"

section \<open>The pull and its outcomes\<close>

lemma askAboutNextKey_received:
  assumes "channel E (connections_pool s) (pulls s) (initial_query_id s) = Received p"
      and "debug_build E \<longrightarrow> NextTaskReply E \<noteq> 0"
  shows "askAboutNextKey E s =
           (Inr (next_task p),
            s\<lparr>pulls := Suc (pulls s),
              logged := logged s @ [LogTrace (''Got new task '' @ next_task p)]\<rparr>)"
  using assms by (simp add: askAboutNextKey_def Let_def)

lemma askAboutNextKey_failed:
  assumes "channel E (connections_pool s) (pulls s) (initial_query_id s) = GetFailed e
         \<or> channel E (connections_pool s) (pulls s) (initial_query_id s) = SendFailed e
         \<or> channel E (connections_pool s) (pulls s) (initial_query_id s) = ReceiveFailed e"
  shows "askAboutNextKey E s =
           (Inl (Propagated e), s\<lparr>pulls := Suc (pulls s), logged := logged s @ [LogException e]\<rparr>)"
  using assms by (auto simp add: askAboutNextKey_def Let_def)

lemma createOrUpdateInnerSource_empty:
  assumes "channel E (connections_pool s) (pulls s) (initial_query_id s) = Received p"
      and "next_task p = []"
      and "debug_build E \<longrightarrow> NextTaskReply E \<noteq> 0"
  shows "createOrUpdateInnerSource E s =
           (Inr False,
            s\<lparr>pulls := Suc (pulls s), logged := logged s @ [LogTrace ''Got new task '']\<rparr>)"
  using assms by (simp add: createOrUpdateInnerSource_def askAboutNextKey_received)

lemma createOrUpdateInnerSource_failed:
  assumes "channel E (connections_pool s) (pulls s) (initial_query_id s) = GetFailed e
         \<or> channel E (connections_pool s) (pulls s) (initial_query_id s) = SendFailed e
         \<or> channel E (connections_pool s) (pulls s) (initial_query_id s) = ReceiveFailed e"
  shows "createOrUpdateInnerSource E s =
           (Inl (Propagated e), s\<lparr>pulls := Suc (pulls s), logged := logged s @ [LogException e]\<rparr>)"
  using assms by (simp add: createOrUpdateInnerSource_def askAboutNextKey_failed)

lemma createOrUpdateInnerSource_unparsable:
  assumes "channel E (connections_pool s) (pulls s) (initial_query_id s) = Received p"
      and "next_task p \<noteq> []"
      and "S3_URI E (next_task p) = Inl e"
      and "debug_build E \<longrightarrow> NextTaskReply E \<noteq> 0"
  shows "createOrUpdateInnerSource E s =
           (Inl (Propagated e),
            s\<lparr>pulls := Suc (pulls s),
              logged := logged s @ [LogTrace (''Got new task '' @ next_task p)]\<rparr>)"
  using assms by (simp add: createOrUpdateInnerSource_def askAboutNextKey_received)

lemma generate_without_reader: "inner s = None \<Longrightarrow> generate E s = (Inr [], s)"
  by (simp add: generate_def)

lemma generate_exhausted_reader:
  assumes "inner s = Some r" and "rd_pending r = []"
  shows "generate E s =
     (case createOrUpdateInnerSource E s of
        (Inl f, s2) \<Rightarrow> (Inl f, s2)
      | (Inr False, s2) \<Rightarrow> (Inr [], s2)
      | (Inr True, s2) \<Rightarrow>
          (case inner s2 of
             None \<Rightarrow> (Inl UndefinedBehaviour, s2)
           | Some r2 \<Rightarrow>
               (let (chunk2, r3) = StorageS3Source_generate r2
                in (Inr chunk2, s2\<lparr>inner := Some r3\<rparr>))))"
proof -
  have "StorageS3Source_generate r = ([], r)"
    using assms(2) by (simp add: StorageS3Source_generate_def)
  then have "generate E s =
     (case createOrUpdateInnerSource E (s\<lparr>inner := Some r\<rparr>) of
        (Inl f, s2) \<Rightarrow> (Inl f, s2)
      | (Inr False, s2) \<Rightarrow> (Inr [], s2)
      | (Inr True, s2) \<Rightarrow>
          (case inner s2 of
             None \<Rightarrow> (Inl UndefinedBehaviour, s2)
           | Some r2 \<Rightarrow>
               (let (chunk2, r3) = StorageS3Source_generate r2
                in (Inr chunk2, s2\<lparr>inner := Some r3\<rparr>))))"
    using assms(1) by (simp add: generate_def)
  moreover have "s\<lparr>inner := Some r\<rparr> = s"
    using assms(1) by simp
  ultimately show ?thesis
    by (simp only:)
qed

lemmas example_defs =
  example_env_def example_context_def example_builder_def example_auth_def example_URI_def
  one_key_replies_def no_key_replies_def mistyped_replies_def broken_replies_def
  unparsable_replies_def
  node1_def node2_def node3_def no_tree_hash_def

lemmas source_defs =
  StorageS3SequentialSource_def createOrUpdateInnerSource_def askAboutNextKey_def
  generate_def StorageS3Source_generate_def updateClientAndAuthSettings_def getHeader_def

lemma run0_eval:
  "inner run0 = Some
     \<lparr>rd_need_path = False, rd_need_file = False, rd_format = ''CSV'',
      rd_name = ''S3Distributed'', rd_sample_block = [''c1''],
      rd_context = example_context ''q2'', rd_columns = [''c1''], rd_max_block_size = 8192,
      rd_compression = ''auto'',
      rd_client = Some (S3Client \<lparr>uri_endpoint = ''s3'', uri_bucket = ''b'', uri_key = ''k1''\<rparr>
                          ''AK'' ''SK'' 4),
      rd_bucket = ''b'', rd_key = ''k1'', rd_pending = [[''row1'']]\<rparr>"
  "pulls run0 = 1" "initial_query_id run0 = ''q1''"
  by (simp_all add: run0_def source_defs new_source_def example_defs Let_def)

lemma run1_eval:
  "fst (generate (example_env no_tree_hash one_key_replies) run0) = Inr [''row1'']"
  "\<exists>r. inner run1 = Some r \<and> rd_pending r = []" "pulls run1 = 1" "initial_query_id run1 = ''q1''"
  unfolding run1_def
  by (simp_all add: generate_def run0_eval StorageS3Source_generate_def Let_def)



section \<open>Claims about the worker's row source\<close>

text \<open>
  C10. The pull never validates the type of the reply: whatever type the received packet
  carries, \<open>askAboutNextKey\<close> returns its \<open>next_task\<close>. The assertion assigns the
  expected type instead of comparing with it, so in a debug build it passes whenever
  \<open>NextTaskReply\<close> is not zero, and a release build has no assertion at all.
\<close>

theorem askAboutNextKey_ignores_packet_type:
  assumes "channel E (connections_pool s) (pulls s) (initial_query_id s) = Received \<lparr>ptype = t, next_task = k\<rparr>"
      and "debug_build E \<longrightarrow> NextTaskReply E \<noteq> 0"
  shows "fst (askAboutNextKey E s) = Inr k"
  using askAboutNextKey_received [OF assms] by simp

theorem askAboutNextKey_ignores_packet_type_witness:
  "channel (example_env no_tree_hash mistyped_replies) (connections_pool idle_source) (pulls idle_source) (initial_query_id idle_source)
     = Received \<lparr>ptype = 2, next_task = ''b/k1''\<rparr>
   \<and> debug_build (example_env no_tree_hash mistyped_replies)
   \<and> NextTaskReply (example_env no_tree_hash mistyped_replies) = 13
   \<and> fst (askAboutNextKey (example_env no_tree_hash mistyped_replies) idle_source) = Inr ''b/k1''"
  using askAboutNextKey_ignores_packet_type
          [of "example_env no_tree_hash mistyped_replies" idle_source 2 "''b/k1''"]
  by (simp add: example_env_def mistyped_replies_def)

text \<open>
  C8. A transport failure of a pull, whether met when the connection is taken from the
  pool, when the request is sent or when the reply is received, is logged and thrown
  again by \<open>askAboutNextKey\<close>; \<open>createOrUpdateInnerSource\<close> and a row request that
  has to pull fail with the same exception, and none of them returns the empty key or an
  empty chunk in its place.
\<close>

theorem transport_failure_propagates:
  assumes "channel E (connections_pool s) (pulls s) (initial_query_id s) = GetFailed e
         \<or> channel E (connections_pool s) (pulls s) (initial_query_id s) = SendFailed e
         \<or> channel E (connections_pool s) (pulls s) (initial_query_id s) = ReceiveFailed e"
  shows "askAboutNextKey E s =
           (Inl (Propagated e), s\<lparr>pulls := Suc (pulls s), logged := logged s @ [LogException e]\<rparr>)
       \<and> fst (createOrUpdateInnerSource E s) = Inl (Propagated e)
       \<and> (\<forall>r. inner s = Some r \<and> rd_pending r = [] \<longrightarrow> fst (generate E s) = Inl (Propagated e))"
  using assms
  by (simp add: askAboutNextKey_failed createOrUpdateInnerSource_failed generate_exhausted_reader)

theorem transport_failure_propagates_witness:
  "channel (example_env no_tree_hash broken_replies) (connections_pool run1) (pulls run1) (initial_query_id run1)
     = ReceiveFailed (Exception ''Timeout exceeded'' (OTHER_ERROR 209))
   \<and> fst (askAboutNextKey (example_env no_tree_hash broken_replies) run1)
       = Inl (Propagated (Exception ''Timeout exceeded'' (OTHER_ERROR 209)))
   \<and> fst (createOrUpdateInnerSource (example_env no_tree_hash broken_replies) run1)
       = Inl (Propagated (Exception ''Timeout exceeded'' (OTHER_ERROR 209)))
   \<and> fst (generate (example_env no_tree_hash broken_replies) run1)
       = Inl (Propagated (Exception ''Timeout exceeded'' (OTHER_ERROR 209)))"
proof -
  let ?E = "example_env no_tree_hash broken_replies"
  let ?e = "Exception ''Timeout exceeded'' (OTHER_ERROR 209)"
  have ch: "channel ?E (connections_pool run1) (pulls run1) (initial_query_id run1) = ReceiveFailed ?e"
    by (simp add: example_env_def broken_replies_def)
  obtain r where r: "inner run1 = Some r" "rd_pending r = []"
    using run1_eval(2) by blast
  from transport_failure_propagates [of ?E run1 ?e] ch r show ?thesis
    by simp
qed

text \<open>
  C7. An empty reply ends the work and is no error: \<open>createOrUpdateInnerSource\<close> returns
  false and leaves the reader slot as it was, a row request that met the empty reply
  returns the empty chunk, and a source whose first pull is answered with the empty
  string (no keys at all) holds no reader and answers a row request with the empty chunk.
\<close>

theorem empty_reply_is_termination:
  assumes "channel E (connections_pool s) (pulls s) (initial_query_id s) = Received p"
      and "next_task p = []"
      and "debug_build E \<longrightarrow> NextTaskReply E \<noteq> 0"
  shows "createOrUpdateInnerSource E s =
           (Inr False,
            s\<lparr>pulls := Suc (pulls s), logged := logged s @ [LogTrace ''Got new task '']\<rparr>)
       \<and> inner (snd (createOrUpdateInnerSource E s)) = inner s
       \<and> (\<forall>r. inner s = Some r \<and> rd_pending r = [] \<longrightarrow> fst (generate E s) = Inr [])
       \<and> (inner s = None \<longrightarrow>
            generate E (snd (createOrUpdateInnerSource E s))
              = (Inr [], snd (createOrUpdateInnerSource E s)))"
  using assms
  by (simp add: createOrUpdateInnerSource_empty generate_exhausted_reader generate_without_reader)

theorem empty_reply_is_termination_witness:
  "channel (example_env no_tree_hash no_key_replies) (connections_pool idle_source) (pulls idle_source) (initial_query_id idle_source)
     = Received \<lparr>ptype = 13, next_task = []\<rparr>
   \<and> inner idle_source = None
   \<and> fst (StorageS3SequentialSource (example_env no_tree_hash no_key_replies) ''q1'' node1
            example_auth example_builder) = Inr False
   \<and> inner (snd (StorageS3SequentialSource (example_env no_tree_hash no_key_replies) ''q1'' node1
            example_auth example_builder)) = None
   \<and> fst (generate (example_env no_tree_hash no_key_replies)
            (snd (StorageS3SequentialSource (example_env no_tree_hash no_key_replies) ''q1'' node1
               example_auth example_builder))) = Inr []"
proof -
  let ?E = "example_env no_tree_hash no_key_replies"
  have ch: "channel ?E (connections_pool idle_source) (pulls idle_source) (initial_query_id idle_source)
              = Received \<lparr>ptype = 13, next_task = []\<rparr>"
    by (simp add: example_env_def no_key_replies_def)
  have dbg: "debug_build ?E \<longrightarrow> NextTaskReply ?E \<noteq> 0"
    by (simp add: example_env_def)
  have idle: "inner idle_source = None"
    by (simp add: idle_source_def new_source_def)
  have ctor: "StorageS3SequentialSource ?E ''q1'' node1 example_auth example_builder
                = createOrUpdateInnerSource ?E idle_source"
    by (simp add: StorageS3SequentialSource_def idle_source_def)
  have nt: "next_task \<lparr>ptype = 13, next_task = []\<rparr> = []"
    by simp
  note th = empty_reply_is_termination [OF ch nt dbg]
  have a: "fst (createOrUpdateInnerSource ?E idle_source) = Inr False"
    using th [THEN conjunct1] by simp
  have b: "inner (snd (createOrUpdateInnerSource ?E idle_source)) = None"
    using th [THEN conjunct2, THEN conjunct1] idle by simp
  have c: "generate ?E (snd (createOrUpdateInnerSource ?E idle_source))
              = (Inr [], snd (createOrUpdateInnerSource ?E idle_source))"
    using th [THEN conjunct2, THEN conjunct2, THEN conjunct2] idle by blast
  show ?thesis
    unfolding ctor using ch idle a b c by simp
qed

text \<open>
  C9, as the code has it. For a non-empty key that parses as an S3 URI, \<open>createOrUpdateInnerSource\<close> builds
  a new authorization from the key's URI and the access key id, secret access key and
  connection limit of the AuthContext, and installs a new reader made from that
  authorization and the unchanged source description. The new reader does not depend on
  the reader it replaces.
\<close>

theorem fresh_reader_per_key:
  assumes "channel E (connections_pool s) (pulls s) (initial_query_id s) = Received p"
      and "next_task p \<noteq> []"
      and "S3_URI E (next_task p) = Inr u"
      and "debug_build E \<longrightarrow> NextTaskReply E \<noteq> 0"
  shows "fst (createOrUpdateInnerSource E s) = Inr True
       \<and> inner (snd (createOrUpdateInnerSource E s)) = Some
           \<lparr>rd_need_path = need_path (s3_source_builder s),
            rd_need_file = need_file (s3_source_builder s),
            rd_format = format (s3_source_builder s),
            rd_name = name (s3_source_builder s),
            rd_sample_block = sample_block (s3_source_builder s),
            rd_context = builder_context (s3_source_builder s),
            rd_columns = columns (s3_source_builder s),
            rd_max_block_size = max_block_size (s3_source_builder s),
            rd_compression = chooseCompressionMethod E (uri_key u)
               (compression_method (s3_source_builder s)),
            rd_client = Some (S3Client u (access_key_id (cli_builder s))
               (secret_access_key (cli_builder s)) (max_connections (cli_builder s))),
            rd_bucket = uri_bucket u,
            rd_key = uri_key u,
            rd_pending = object_chunks E (uri_bucket u) (uri_key u)\<rparr>
       \<and> s3_source_builder (snd (createOrUpdateInnerSource E s)) = s3_source_builder s
       \<and> cli_builder (snd (createOrUpdateInnerSource E s)) = cli_builder s"
  using assms
  by (simp add: createOrUpdateInnerSource_def askAboutNextKey_received
        updateClientAndAuthSettings_def Let_def)

theorem fresh_reader_per_key_witness:
  "channel (example_env no_tree_hash second_key_replies) (connections_pool run1) (pulls run1) (initial_query_id run1)
     = Received \<lparr>ptype = 13, next_task = ''b/k2''\<rparr>
   \<and> S3_URI (example_env no_tree_hash second_key_replies) ''b/k2''
     = Inr \<lparr>uri_endpoint = ''s3'', uri_bucket = ''b'', uri_key = ''k2''\<rparr>
   \<and> fst (createOrUpdateInnerSource (example_env no_tree_hash second_key_replies) run1) = Inr True
   \<and> inner (snd (createOrUpdateInnerSource (example_env no_tree_hash second_key_replies) run1)) = Some
        \<lparr>rd_need_path = False, rd_need_file = False, rd_format = ''CSV'',
         rd_name = ''S3Distributed'', rd_sample_block = [''c1''],
         rd_context = example_context ''q2'', rd_columns = [''c1''], rd_max_block_size = 8192,
         rd_compression = ''auto'',
         rd_client = Some (S3Client \<lparr>uri_endpoint = ''s3'', uri_bucket = ''b'', uri_key = ''k2''\<rparr>
                             ''AK'' ''SK'' 4),
         rd_bucket = ''b'', rd_key = ''k2'', rd_pending = []\<rparr>"
proof -
  let ?E = "example_env no_tree_hash second_key_replies"
  let ?u = "\<lparr>uri_endpoint = ''s3'', uri_bucket = ''b'', uri_key = ''k2''\<rparr>"
  have ch: "channel ?E (connections_pool run1) (pulls run1) (initial_query_id run1)
              = Received \<lparr>ptype = 13, next_task = ''b/k2''\<rparr>"
    by (simp add: example_env_def second_key_replies_def)
  have uri: "S3_URI ?E (next_task \<lparr>ptype = 13, next_task = ''b/k2''\<rparr>) = Inr ?u"
    by (simp add: example_env_def example_URI_def)
  have dbg: "debug_build ?E \<longrightarrow> NextTaskReply ?E \<noteq> 0"
    by (simp add: example_env_def)
  have b: "s3_source_builder run1 = example_builder" "cli_builder run1 = example_auth"
    by (simp_all add: run1_def run0_def source_defs new_source_def example_defs Let_def)
  from fresh_reader_per_key [OF ch _ uri dbg] ch uri b show ?thesis
    by (simp add: example_env_def example_builder_def example_auth_def)
qed


text \<open>
  Against C9 as stated: the worker of the example holds the reader of \<open>k1\<close>, and its
  next pull is answered with the non-empty key \<open>nokey\<close>, which the parser of S3 URIs
  rejects. \<open>createOrUpdateInnerSource\<close> throws the parser's exception; no authorization
  and no reader is built, and the reader of \<open>k1\<close> stays in its slot.
\<close>

theorem unparsable_key_counterexample:
  "channel (example_env no_tree_hash unparsable_replies) (connections_pool run1) (pulls run1)
     (initial_query_id run1) = Received \<lparr>ptype = 13, next_task = ''nokey''\<rparr>
   \<and> ''nokey'' \<noteq> []
   \<and> S3_URI (example_env no_tree_hash unparsable_replies) ''nokey''
     = Inl (Exception ''Bucket or key name are invalid in S3 URI'' (OTHER_ERROR 36))
   \<and> fst (createOrUpdateInnerSource (example_env no_tree_hash unparsable_replies) run1)
     = Inl (Propagated (Exception ''Bucket or key name are invalid in S3 URI'' (OTHER_ERROR 36)))
   \<and> inner (snd (createOrUpdateInnerSource (example_env no_tree_hash unparsable_replies) run1))
     = inner run1
   \<and> inner run1 = Some
        \<lparr>rd_need_path = False, rd_need_file = False, rd_format = ''CSV'',
         rd_name = ''S3Distributed'', rd_sample_block = [''c1''],
         rd_context = example_context ''q2'', rd_columns = [''c1''], rd_max_block_size = 8192,
         rd_compression = ''auto'',
         rd_client = Some (S3Client \<lparr>uri_endpoint = ''s3'', uri_bucket = ''b'', uri_key = ''k1''\<rparr>
                             ''AK'' ''SK'' 4),
         rd_bucket = ''b'', rd_key = ''k1'', rd_pending = []\<rparr>"
proof -
  let ?E = "example_env no_tree_hash unparsable_replies"
  let ?e = "Exception ''Bucket or key name are invalid in S3 URI'' (OTHER_ERROR 36)"
  have ch: "channel ?E (connections_pool run1) (pulls run1) (initial_query_id run1)
              = Received \<lparr>ptype = 13, next_task = ''nokey''\<rparr>"
    by (simp add: example_env_def unparsable_replies_def)
  have uri: "S3_URI ?E (next_task \<lparr>ptype = 13, next_task = ''nokey''\<rparr>) = Inl ?e"
    by (simp add: example_env_def example_URI_def)
  have dbg: "debug_build ?E \<longrightarrow> NextTaskReply ?E \<noteq> 0"
    by (simp add: example_env_def)
  have ne: "next_task \<lparr>ptype = 13, next_task = ''nokey''\<rparr> \<noteq> []"
    by simp
  note c = createOrUpdateInnerSource_unparsable [OF ch ne uri dbg]
  have f: "fst (createOrUpdateInnerSource ?E run1) = Inl (Propagated ?e)"
    and i: "inner (snd (createOrUpdateInnerSource ?E run1)) = inner run1"
    by (simp_all add: c)
  have r: "inner run1 = Some
        \<lparr>rd_need_path = False, rd_need_file = False, rd_format = ''CSV'',
         rd_name = ''S3Distributed'', rd_sample_block = [''c1''],
         rd_context = example_context ''q2'', rd_columns = [''c1''], rd_max_block_size = 8192,
         rd_compression = ''auto'',
         rd_client = Some (S3Client \<lparr>uri_endpoint = ''s3'', uri_bucket = ''b'', uri_key = ''k1''\<rparr>
                             ''AK'' ''SK'' 4),
         rd_bucket = ''b'', rd_key = ''k1'', rd_pending = []\<rparr>"
    unfolding run1_def
    by (simp add: generate_def run0_eval StorageS3Source_generate_def Let_def)
  show ?thesis
    using ch uri f i r by simp
qed

lemma run2_eval:
  "fst (generate (example_env no_tree_hash one_key_replies) run1) = Inr []"
  "\<exists>r. inner run2 = Some r \<and> rd_pending r = []" "pulls run2 = 2" "initial_query_id run2 = ''q1''"
proof -
  let ?E = "example_env no_tree_hash one_key_replies"
  obtain r where r: "inner run1 = Some r" "rd_pending r = []"
    using run1_eval(2) by blast
  have ch: "channel ?E (connections_pool run1) (pulls run1) (initial_query_id run1) = Received \<lparr>ptype = 13, next_task = []\<rparr>"
    by (simp add: run1_eval example_env_def one_key_replies_def)
  have dbg: "debug_build ?E \<longrightarrow> NextTaskReply ?E \<noteq> 0"
    by (simp add: example_env_def)
  have g: "generate ?E run1 =
             (Inr [], run1\<lparr>pulls := Suc (pulls run1), logged := logged run1 @ [LogTrace ''Got new task '']\<rparr>)"
    using r by (simp add: generate_exhausted_reader createOrUpdateInnerSource_empty [OF ch _ dbg])
  show "fst (generate ?E run1) = Inr []"
    using g by simp
  show "\<exists>r. inner run2 = Some r \<and> rd_pending r = []"
    unfolding run2_def using g r by simp
  show "pulls run2 = 2"
    unfolding run2_def using g by (simp add: run1_eval)
  show "initial_query_id run2 = ''q1''"
    unfolding run2_def using g by (simp add: run1_eval)
qed

text \<open>
  C3, as the code has it. A source that holds no reader (the pull made by the constructor
  was answered with the empty string) answers every row request with the empty chunk
  and does not pull: its state is unchanged. When a later pull was answered with the
  empty string the exhausted reader stays in its slot, and a further row request pulls
  once more; it returns the empty chunk when that pull is again answered with the empty
  string.
\<close>

theorem post_exhaustion_requests:
  "(inner s = None \<longrightarrow> generate E s = (Inr [], s))
   \<and> (\<forall>r p. inner s = Some r \<and> rd_pending r = []
          \<and> channel E (connections_pool s) (pulls s) (initial_query_id s) = Received p \<and> next_task p = []
          \<and> (debug_build E \<longrightarrow> NextTaskReply E \<noteq> 0)
        \<longrightarrow> generate E s =
              (Inr [], s\<lparr>pulls := Suc (pulls s), logged := logged s @ [LogTrace ''Got new task '']\<rparr>))"
  by (simp add: generate_without_reader generate_exhausted_reader createOrUpdateInnerSource_empty)

theorem post_exhaustion_requests_witness:
  "inner (snd (StorageS3SequentialSource (example_env no_tree_hash no_key_replies) ''q1'' node1
                 example_auth example_builder)) = None
   \<and> pulls (snd (StorageS3SequentialSource (example_env no_tree_hash no_key_replies) ''q1'' node1
                 example_auth example_builder)) = 1
   \<and> generate (example_env no_tree_hash no_key_replies)
       (snd (StorageS3SequentialSource (example_env no_tree_hash no_key_replies) ''q1'' node1
               example_auth example_builder))
       = (Inr [], snd (StorageS3SequentialSource (example_env no_tree_hash no_key_replies) ''q1'' node1
                         example_auth example_builder))
   \<and> channel (example_env no_tree_hash one_key_replies) (connections_pool run2) (pulls run2) (initial_query_id run2)
       = Received \<lparr>ptype = 13, next_task = []\<rparr>
   \<and> generate (example_env no_tree_hash one_key_replies) run2
       = (Inr [], run2\<lparr>pulls := 3, logged := logged run2 @ [LogTrace ''Got new task '']\<rparr>)"
proof -
  let ?N = "example_env no_tree_hash no_key_replies"
  let ?E = "example_env no_tree_hash one_key_replies"
  let ?s = "snd (StorageS3SequentialSource ?N ''q1'' node1 example_auth example_builder)"
  have none: "inner ?s = None" and one: "pulls ?s = 1"
    by (simp_all add: source_defs new_source_def example_defs Let_def)
  have a: "generate ?N ?s = (Inr [], ?s)"
    using post_exhaustion_requests [of ?s ?N, THEN conjunct1] none by blast
  obtain r where r: "inner run2 = Some r" "rd_pending r = []"
    using run2_eval(2) by blast
  have ch: "channel ?E (connections_pool run2) (pulls run2) (initial_query_id run2) = Received \<lparr>ptype = 13, next_task = []\<rparr>"
    by (simp add: run2_eval example_env_def one_key_replies_def)
  have dbg: "debug_build ?E \<longrightarrow> NextTaskReply ?E \<noteq> 0"
    by (simp add: example_env_def)
  have b: "generate ?E run2 =
             (Inr [], run2\<lparr>pulls := Suc (pulls run2), logged := logged run2 @ [LogTrace ''Got new task '']\<rparr>)"
    using post_exhaustion_requests [of run2 ?E, THEN conjunct2] r ch dbg by simp
  show ?thesis
    using none one a ch b by (simp add: run2_eval)
qed

text \<open>
  Against C3 as stated: the worker of the example received one key. Its second pull
  (number 1) was answered with the empty string during the second row request. The third
  row request returns the empty chunk, and it pulls again: the source has then made
  three pulls.
\<close>

theorem post_exhaustion_pull_counterexample:
  "channel (example_env no_tree_hash one_key_replies) (connections_pool run1) 1 ''q1''
     = Received \<lparr>ptype = 13, next_task = []\<rparr>
   \<and> pulls run1 = 1
   \<and> fst (generate (example_env no_tree_hash one_key_replies) run1) = Inr []
   \<and> pulls run2 = 2
   \<and> fst (generate (example_env no_tree_hash one_key_replies) run2) = Inr []
   \<and> pulls (snd (generate (example_env no_tree_hash one_key_replies) run2)) = 3"
proof -
  let ?E = "example_env no_tree_hash one_key_replies"
  obtain r where r: "inner run2 = Some r" "rd_pending r = []"
    using run2_eval(2) by blast
  have ch: "channel ?E (connections_pool run2) (pulls run2) (initial_query_id run2) = Received \<lparr>ptype = 13, next_task = []\<rparr>"
    by (simp add: run2_eval example_env_def one_key_replies_def)
  have dbg: "debug_build ?E \<longrightarrow> NextTaskReply ?E \<noteq> 0"
    by (simp add: example_env_def)
  have g: "generate ?E run2 =
             (Inr [], run2\<lparr>pulls := Suc (pulls run2), logged := logged run2 @ [LogTrace ''Got new task '']\<rparr>)"
    using r by (simp add: generate_exhausted_reader createOrUpdateInnerSource_empty [OF ch _ dbg])
  have "channel ?E (connections_pool run1) 1 ''q1'' = Received \<lparr>ptype = 13, next_task = []\<rparr>"
    by (simp add: example_env_def one_key_replies_def)
  then show ?thesis
    using g by (simp add: run1_eval run2_eval)
qed


section \<open>The scans of the topology\<close>







lemma self_in_replicas_filter:
  "self_in_replicas E tcp replicas hash_of_address =
     (case filter (\<lambda>n. is_local n \<and> port n = tcp) replicas of
        [] \<Rightarrow> hash_of_address | n # _ \<Rightarrow> getHash E n)"
  by (induction replicas) simp_all

lemma self_in_shards_no_match:
  "filter (\<lambda>n. is_local n \<and> port n = tcp) (concat topology) = [] \<Longrightarrow>
     self_in_shards E tcp topology hash_of_address = hash_of_address"
proof (induction topology arbitrary: hash_of_address)
  case Nil
  then show ?case by simp
next
  case (Cons replicas rest)
  then show ?case
    by (simp add: self_in_replicas_filter)
qed

lemma self_in_shards_match:
  "filter (\<lambda>n. is_local n \<and> port n = tcp) (concat topology) \<noteq> [] \<Longrightarrow>
     \<exists>n \<in> set (concat topology). is_local n \<and> port n = tcp
        \<and> self_in_shards E tcp topology hash_of_address = getHash E n"
proof (induction topology arbitrary: hash_of_address)
  case Nil
  then show ?case by simp
next
  case (Cons replicas rest)
  let ?P = "\<lambda>n. is_local n \<and> port n = tcp"
  show ?case
  proof (cases "filter ?P (concat rest) = []")
    case False
    from Cons.IH [OF False]
    obtain n where "n \<in> set (concat rest)" "is_local n" "port n = tcp"
      "self_in_shards E tcp rest (self_in_replicas E tcp replicas hash_of_address) = getHash E n"
      by blast
    then show ?thesis
      by auto
  next
    case True
    with Cons.prems obtain b bs where b: "filter ?P replicas = b # bs"
      by (cases "filter ?P replicas") simp_all
    then have "b \<in> set (filter ?P replicas)"
      by simp
    then have "b \<in> set replicas" "is_local b" "port b = tcp"
      by simp_all
    moreover have "self_in_shards E tcp (replicas # rest) hash_of_address = getHash E b"
      using True b by (simp add: self_in_replicas_filter self_in_shards_no_match)
    ultimately show ?thesis
      by auto
  qed
qed

lemma self_in_shards_unique:
  "filter (\<lambda>n. is_local n \<and> port n = tcp) (concat topology) = [a] \<Longrightarrow>
     self_in_shards E tcp topology hash_of_address = getHash E a"
proof -
  assume u: "filter (\<lambda>n. is_local n \<and> port n = tcp) (concat topology) = [a]"
  then have "filter (\<lambda>n. is_local n \<and> port n = tcp) (concat topology) \<noteq> []"
    by simp
  from self_in_shards_match [OF this]
  obtain n where n: "n \<in> set (concat topology)" "is_local n" "port n = tcp"
    "self_in_shards E tcp topology hash_of_address = getHash E n"
    by blast
  then have "n \<in> set (filter (\<lambda>n. is_local n \<and> port n = tcp) (concat topology))"
    by simp
  with u have "n = a"
    by simp
  with n show ?thesis
    by simp
qed

lemma self_in_shards_append:
  "self_in_shards E tcp (xs @ ys) hash_of_address
     = self_in_shards E tcp ys (self_in_shards E tcp xs hash_of_address)"
  by (induction xs arbitrary: hash_of_address) simp_all

lemma self_in_shards_last:
  assumes "filter (\<lambda>n. is_local n \<and> port n = tcp) replicas = a # others"
      and "filter (\<lambda>n. is_local n \<and> port n = tcp) (concat post) = []"
  shows "self_in_shards E tcp (pre @ replicas # post) hash_of_address = getHash E a"
  using assms
  by (simp add: self_in_shards_append self_in_replicas_filter self_in_shards_no_match)

section \<open>The rewrite and the fan-out\<close>

lemma set_bucket_Inr:
  assumes "set_bucket h tf = Inr tf'"
  shows "\<exists>f l a0 b args others.
           tf = ASTNode f (ASTNode l (a0 # ASTLiteral (StringField b) # args) # others)
         \<and> tf' = ASTNode f (ASTNode l (a0 # ASTLiteral (StringField h) # args) # others)"
  using assms
  by (auto simp add: set_bucket_def split: ast.splits list.splits field.splits)

lemma set_bucket_literal:
  "set_bucket h (ASTNode f (ASTNode l (a0 # ASTLiteral (StringField b) # args) # others))
     = Inr (ASTNode f (ASTNode l (a0 # ASTLiteral (StringField h) # args) # others))"
  by (simp add: set_bucket_def)

lemma bucket_of_literal:
  "bucket_of (ASTNode f (ASTNode l (a0 # ASTLiteral (StringField b) # args) # others)) = Some b"
  by (simp add: bucket_of_def)

lemma set_bucket_Inl: "set_bucket h tf = Inl f \<Longrightarrow> f \<noteq> Thrown e"
  by (auto simp add: set_bucket_def split: ast.splits list.splits field.splits)

lemma rewrite_loop_Inl:
  "rewrite_loop E th h q seen rest = Inl f \<Longrightarrow> f \<noteq> Thrown e"
proof (induction rest arbitrary: seen)
  case Nil
  then show ?case by simp
next
  case (Cons t rest)
  then show ?case
    by (auto simp add: Let_def split: option.splits if_splits sum.splits dest: set_bucket_Inl)
qed

lemma rewrite_loop_miss:
  "\<forall>t \<in> set rest. \<exists>g. table_function t = Some g \<and> getTreeHash E g \<noteq> th \<Longrightarrow>
     rewrite_loop E th h q seen rest = Inr (q, [])"
  by (induction rest arbitrary: seen) auto

lemma rewrite_loop_hit:
  assumes "\<forall>t \<in> set pre. \<exists>g. table_function t = Some g \<and> getTreeHash E g \<noteq> th"
      and "table_function te = Some tf"
      and "getTreeHash E tf = th"
      and "set_bucket h tf = Inr tf'"
  shows "rewrite_loop E th h q seen (pre @ te # post) =
           Inr (q\<lparr>tables := seen @ pre @ te\<lparr>table_function := Some tf'\<rparr> # post\<rparr>,
                queryToString E (q\<lparr>tables := seen @ pre @ te\<lparr>table_function := Some tf'\<rparr> # post\<rparr>))"
  using assms(1)
proof (induction pre arbitrary: seen)
  case Nil
  then show ?case
    using assms(2-4) by (simp add: Let_def)
next
  case (Cons t pre)
  then obtain g where "table_function t = Some g" "getTreeHash E g \<noteq> th"
    by auto
  moreover have "rewrite_loop E th h q (seen @ [t]) (pre @ te # post) =
      Inr (q\<lparr>tables := (seen @ [t]) @ pre @ te\<lparr>table_function := Some tf'\<rparr> # post\<rparr>,
           queryToString E (q\<lparr>tables := (seen @ [t]) @ pre @ te\<lparr>table_function := Some tf'\<rparr> # post\<rparr>))"
    using Cons by simp
  ultimately show ?case
    by simp
qed

lemma rewrite_loop_cases:
  assumes "rewrite_loop E th h q seen rest = Inr (q', text)"
  shows "(q' = q \<and> text = []
          \<and> (\<forall>t \<in> set rest. \<exists>g. table_function t = Some g \<and> getTreeHash E g \<noteq> th))
       \<or> (\<exists>pre te post tf tf'. rest = pre @ te # post
            \<and> (\<forall>t \<in> set pre. \<exists>g. table_function t = Some g \<and> getTreeHash E g \<noteq> th)
            \<and> table_function te = Some tf \<and> getTreeHash E tf = th
            \<and> set_bucket h tf = Inr tf'
            \<and> q' = q\<lparr>tables := seen @ pre @ te\<lparr>table_function := Some tf'\<rparr> # post\<rparr>
            \<and> text = queryToString E q')"
  using assms
proof (induction rest arbitrary: seen)
  case Nil
  then show ?case by simp
next
  case (Cons t rest)
  from Cons.prems obtain g where g: "table_function t = Some g"
    by (cases "table_function t") simp_all
  show ?case
  proof (cases "getTreeHash E g = th")
    case True
    with Cons.prems g obtain tf' where tf': "set_bucket h g = Inr tf'"
      by (cases "set_bucket h g") simp_all
    with Cons.prems g True
    have "q' = q\<lparr>tables := seen @ t\<lparr>table_function := Some tf'\<rparr> # rest\<rparr>"
      and "text = queryToString E q'"
      by (auto simp add: Let_def)
    with g True tf' have "\<exists>pre te post tf tf'. t # rest = pre @ te # post
            \<and> (\<forall>t \<in> set pre. \<exists>g. table_function t = Some g \<and> getTreeHash E g \<noteq> th)
            \<and> table_function te = Some tf \<and> getTreeHash E tf = th
            \<and> set_bucket h tf = Inr tf'
            \<and> q' = q\<lparr>tables := seen @ pre @ te\<lparr>table_function := Some tf'\<rparr> # post\<rparr>
            \<and> text = queryToString E q'"
      by (intro exI [of _ "[]"] exI [of _ t] exI [of _ rest] exI [of _ g] exI [of _ tf']) simp
    then show ?thesis
      by blast
  next
    case False
    with Cons.prems g have rec: "rewrite_loop E th h q (seen @ [t]) rest = Inr (q', text)"
      by simp
    from Cons.IH [OF rec] show ?thesis
    proof
      assume "q' = q \<and> text = []
          \<and> (\<forall>t \<in> set rest. \<exists>g. table_function t = Some g \<and> getTreeHash E g \<noteq> th)"
      with g False show ?thesis
        by auto
    next
      assume "\<exists>pre te post tf tf'. rest = pre @ te # post
            \<and> (\<forall>t \<in> set pre. \<exists>g. table_function t = Some g \<and> getTreeHash E g \<noteq> th)
            \<and> table_function te = Some tf \<and> getTreeHash E tf = th
            \<and> set_bucket h tf = Inr tf'
            \<and> q' = q\<lparr>tables := (seen @ [t]) @ pre @ te\<lparr>table_function := Some tf'\<rparr> # post\<rparr>
            \<and> text = queryToString E q'"
      then obtain pre te post tf tf' where h: "rest = pre @ te # post"
            "\<forall>t \<in> set pre. \<exists>g. table_function t = Some g \<and> getTreeHash E g \<noteq> th"
            "table_function te = Some tf" "getTreeHash E tf = th"
            "set_bucket h tf = Inr tf'"
            "q' = q\<lparr>tables := (seen @ [t]) @ pre @ te\<lparr>table_function := Some tf'\<rparr> # post\<rparr>"
            "text = queryToString E q'"
        by blast
      with g False have "t # rest = (t # pre) @ te # post
            \<and> (\<forall>u \<in> set (t # pre). \<exists>g. table_function u = Some g \<and> getTreeHash E g \<noteq> th)
            \<and> table_function te = Some tf \<and> getTreeHash E tf = th
            \<and> set_bucket h tf = Inr tf'
            \<and> q' = q\<lparr>tables := seen @ (t # pre) @ te\<lparr>table_function := Some tf'\<rparr> # post\<rparr>
            \<and> text = queryToString E q'"
        by simp
      then show ?thesis
        by blast
    qed
  qed
qed

lemma connect_replicas_map:
  "connect_replicas ctx remote_query header stage replicas (conns, pipes) =
     (conns @ map (node_connection ctx) replicas,
      pipes @ map (\<lambda>node. \<lparr>stream_connection = node_connection ctx node,
                            stream_query = remote_query,
                            stream_header = header,
                            stream_scalars = getScalars ctx,
                            stream_stage = stage\<rparr>) replicas)"
  by (induction replicas arbitrary: conns pipes) simp_all

lemma connect_shards_map:
  "connect_shards ctx remote_query header stage topology (conns, pipes) =
     (conns @ map (node_connection ctx) (concat topology),
      pipes @ map (\<lambda>node. \<lparr>stream_connection = node_connection ctx node,
                            stream_query = remote_query,
                            stream_header = header,
                            stream_scalars = getScalars ctx,
                            stream_stage = stage\<rparr>) (concat topology))"
  by (induction topology arbitrary: conns pipes) (simp_all add: connect_replicas_map)

text \<open>The read of the initiator, once it has found itself and rewritten the query.\<close>

lemma read_initiator_rewritten:
  assumes "getCurrentQueryId ctx = getInitialQueryId ctx"
      and "self_in_shards E (getTCPPort ctx) (shards st) [] = h"
      and "h \<noteq> []"
      and "rewrite_loop E (tree_hash st) h q [] (tables q) = Inr (q', text)"
      and "text \<noteq> []"
      and "analyzeSampleBlock E q' = Inr header"
  shows "read E st cols md q ctx stage bs =
     (case metadata_check E cols of
        Some e \<Rightarrow> Inl (Propagated e)
      | None \<Rightarrow> Inr (UnitedPipes
          (map (\<lambda>node. \<lparr>stream_connection = node_connection ctx node,
                         stream_query = text,
                         stream_header = header,
                         stream_scalars = getScalars ctx,
                         stream_stage = stage\<rparr>) (concat (shards st)))),
      st\<lparr>connections := connections st @ map (node_connection ctx) (concat (shards st))\<rparr>)"
  using assms
  by (simp add: read_def Let_def connect_shards_map split: option.splits)

lemma read_initiator_no_self:
  assumes "getCurrentQueryId ctx = getInitialQueryId ctx"
      and "self_in_shards E (getTCPPort ctx) (shards st) [] = []"
  shows "read E st cols md q ctx stage bs =
           (Inl (Thrown (Exception ''Could not find outself in cluster '' LOGICAL_ERROR)), st)"
  using assms by (simp add: read_def)

lemma read_initiator_no_function:
  assumes "getCurrentQueryId ctx = getInitialQueryId ctx"
      and "self_in_shards E (getTCPPort ctx) (shards st) [] = h"
      and "h \<noteq> []"
      and "rewrite_loop E (tree_hash st) h q [] (tables q) = Inr (q', [])"
  shows "read E st cols md q ctx stage bs =
           (Inl (Thrown (Exception ''No table function'' LOGICAL_ERROR)), st)"
  using assms by (simp add: read_def)

lemma read_initiator_rewrite_failed:
  assumes "getCurrentQueryId ctx = getInitialQueryId ctx"
      and "self_in_shards E (getTCPPort ctx) (shards st) [] = h"
      and "h \<noteq> []"
      and "rewrite_loop E (tree_hash st) h q [] (tables q) = Inl f"
  shows "read E st cols md q ctx stage bs = (Inl f, st)"
  using assms by (simp add: read_def)

lemma read_initiator_analysis_failed:
  assumes "getCurrentQueryId ctx = getInitialQueryId ctx"
      and "self_in_shards E (getTCPPort ctx) (shards st) [] = h"
      and "h \<noteq> []"
      and "rewrite_loop E (tree_hash st) h q [] (tables q) = Inr (q', rq)"
      and "rq \<noteq> []"
      and "analyzeSampleBlock E q' = Inl e"
  shows "read E st cols md q ctx stage bs = (Inl (Propagated e), st)"
  using assms by (simp add: read_def)


section \<open>Claims about read\<close>





lemma self_resolution_returned:
  assumes "getCurrentQueryId ctx = getInitialQueryId ctx"
  shows "((\<forall>n \<in> set (concat (shards st)). \<not> (is_local n \<and> port n = getTCPPort ctx)) \<longrightarrow>
            read E st cols md q ctx stage bs =
              (Inl (Thrown (Exception ''Could not find outself in cluster '' LOGICAL_ERROR)), st))
       \<and> (\<forall>p st'. read E st cols md q ctx stage bs = (Inr p, st') \<longrightarrow>
            (\<exists>n \<in> set (concat (shards st)). is_local n \<and> port n = getTCPPort ctx \<and>
               (\<exists>q' te tf.
                   rewrite_loop E (tree_hash st) (getHash E n) q [] (tables q)
                     = Inr (q', queryToString E q')
                 \<and> te \<in> set (tables q') \<and> table_function te = Some tf
                 \<and> bucket_of tf = Some (getHash E n)
                 \<and> pipe_queries p = map (\<lambda>node. queryToString E q') (concat (shards st)))))
       \<and> (\<forall>n. filter (\<lambda>n. is_local n \<and> port n = getTCPPort ctx) (concat (shards st)) = [n] \<longrightarrow>
            self_in_shards E (getTCPPort ctx) (shards st) [] = getHash E n)"
proof (intro conjI impI allI)
  assume "\<forall>n \<in> set (concat (shards st)). \<not> (is_local n \<and> port n = getTCPPort ctx)"
  then have "filter (\<lambda>n. is_local n \<and> port n = getTCPPort ctx) (concat (shards st)) = []"
    by (simp add: filter_empty_conv)
  then have "self_in_shards E (getTCPPort ctx) (shards st) [] = []"
    by (rule self_in_shards_no_match)
  with assms show "read E st cols md q ctx stage bs =
      (Inl (Thrown (Exception ''Could not find outself in cluster '' LOGICAL_ERROR)), st)"
    by (rule read_initiator_no_self)
next
  fix n
  assume "filter (\<lambda>n. is_local n \<and> port n = getTCPPort ctx) (concat (shards st)) = [n]"
  then show "self_in_shards E (getTCPPort ctx) (shards st) [] = getHash E n"
    by (rule self_in_shards_unique)
next
  fix p st'
  assume ret: "read E st cols md q ctx stage bs = (Inr p, st')"
  define h where "h = self_in_shards E (getTCPPort ctx) (shards st) []"
  have h: "h \<noteq> []"
    using ret read_initiator_no_self [OF assms, of E st cols md q stage bs]
    by (auto simp add: h_def)
  then have "filter (\<lambda>n. is_local n \<and> port n = getTCPPort ctx) (concat (shards st)) \<noteq> []"
    using self_in_shards_no_match [of "getTCPPort ctx" "shards st" E "[]"]
    by (auto simp add: h_def)
  from self_in_shards_match [OF this, of E "[]"]
  obtain n where n: "n \<in> set (concat (shards st))" "is_local n" "port n = getTCPPort ctx"
    "h = getHash E n"
    by (auto simp add: h_def)
  obtain q' rq where loop: "rewrite_loop E (tree_hash st) h q [] (tables q) = Inr (q', rq)"
    using ret read_initiator_rewrite_failed [OF assms h_def [symmetric] h, of q _ cols md stage bs]
    by (cases "rewrite_loop E (tree_hash st) h q [] (tables q)") auto
  have rq: "rq \<noteq> []"
    using ret loop read_initiator_no_function [OF assms h_def [symmetric] h, of q q' cols md stage bs]
    by auto
  from rewrite_loop_cases [OF loop] rq
  obtain pre te post tf tf' where hit: "tables q = pre @ te # post"
    "set_bucket h tf = Inr tf'"
    "q' = q\<lparr>tables := [] @ pre @ te\<lparr>table_function := Some tf'\<rparr> # post\<rparr>"
    "rq = queryToString E q'"
    by blast
  from set_bucket_Inr [OF hit(2)] have bucket: "bucket_of tf' = Some h"
    by (auto simp add: bucket_of_literal)
  have member: "te\<lparr>table_function := Some tf'\<rparr> \<in> set (tables q')"
    and func: "table_function (te\<lparr>table_function := Some tf'\<rparr>) = Some tf'"
    using hit(3) by simp_all
  obtain header where header: "analyzeSampleBlock E q' = Inr header"
    using ret read_initiator_analysis_failed [OF assms h_def [symmetric] h loop rq, of _ cols md stage bs]
    by (cases "analyzeSampleBlock E q'") auto
  have "pipe_queries p = map (\<lambda>node. queryToString E q') (concat (shards st))"
    using ret read_initiator_rewritten [OF assms h_def [symmetric] h loop rq header, of cols md stage bs]
      hit(4)
    by (cases "metadata_check E cols") (auto simp add: comp_def)
  with loop hit(4) member func bucket n
  show "\<exists>n \<in> set (concat (shards st)). is_local n \<and> port n = getTCPPort ctx \<and>
               (\<exists>q' te tf.
                   rewrite_loop E (tree_hash st) (getHash E n) q [] (tables q)
                     = Inr (q', queryToString E q')
                 \<and> te \<in> set (tables q') \<and> table_function te = Some tf
                 \<and> bucket_of tf = Some (getHash E n)
                 \<and> pipe_queries p = map (\<lambda>node. queryToString E q') (concat (shards st)))"
    by blast
qed


lemma read_embeds_self_hash:
  assumes "getCurrentQueryId ctx = getInitialQueryId ctx"
      and "shards st = spre @ sreplicas # spost"
      and "filter (\<lambda>n. is_local n \<and> port n = getTCPPort ctx) sreplicas = n # sothers"
      and "filter (\<lambda>n. is_local n \<and> port n = getTCPPort ctx) (concat spost) = []"
      and "getHash E n \<noteq> []"
      and "tables q = pre @ te # post"
      and "\<forall>t \<in> set pre. \<exists>g. table_function t = Some g \<and> getTreeHash E g \<noteq> tree_hash st"
      and "table_function te
             = Some (ASTNode f (ASTNode l (a0 # ASTLiteral (StringField b) # args) # others))"
      and "getTreeHash E (ASTNode f (ASTNode l (a0 # ASTLiteral (StringField b) # args) # others))
             = tree_hash st"
      and "q' = q\<lparr>tables := pre @ te\<lparr>table_function :=
                  Some (ASTNode f (ASTNode l (a0 # ASTLiteral (StringField (getHash E n)) # args)
                          # others))\<rparr>
                # post\<rparr>"
      and "queryToString E q' \<noteq> []"
      and "analyzeSampleBlock E q' = Inr header"
      and "metadata_check E cols = None"
  shows "read E st cols md q ctx stage bs =
           (Inr (UnitedPipes
              (map (\<lambda>node. \<lparr>stream_connection = node_connection ctx node,
                             stream_query = queryToString E q',
                             stream_header = header,
                             stream_scalars = getScalars ctx,
                             stream_stage = stage\<rparr>) (concat (shards st)))),
            st\<lparr>connections := connections st @ map (node_connection ctx) (concat (shards st))\<rparr>)"
proof -
  have self: "self_in_shards E (getTCPPort ctx) (shards st) [] = getHash E n"
    using self_in_shards_last [OF assms(3) assms(4), of E spre "[]"] assms(2) by simp
  have "rewrite_loop E (tree_hash st) (getHash E n) q [] (pre @ te # post)
          = Inr (q', queryToString E q')"
    using rewrite_loop_hit [OF assms(7) assms(8) assms(9) set_bucket_literal,
            of "getHash E n" q "[]" post] assms(10)
    by simp
  then have loop: "rewrite_loop E (tree_hash st) (getHash E n) q [] (tables q)
                     = Inr (q', queryToString E q')"
    using assms(6) by simp
  from read_initiator_rewritten [OF assms(1) self assms(5) loop assms(11) assms(12),
         of cols md stage bs]
  show ?thesis
    using assms(13) by simp
qed

text \<open>
  C5. On the initiator, when no address of the topology is both local and on the
  session's TCP port, \<open>read\<close> throws and leaves the storage, and so its connections, as
  they were. When such an address exists, the first one of the last shard that holds one
  (the only one, when there is one), with a hash that is not empty, then at a query
  whose first table function with the stored tree hash is reached through table functions
  with other tree hashes and has a string literal as its second argument, \<open>read\<close>
  returns one stream for every node of the topology, and the query of every stream is the
  text of the query with the hash of that address in the bucket slot; the analysis of the
  rewritten query and the check of the columns are taken not to throw. Moreover, whenever
  \<open>read\<close> returns its pipes, the hash in the bucket slot of the rewritten query is the
  hash of an address that is local and on that port.
\<close>

theorem self_resolution_fails_fast:
  assumes "getCurrentQueryId ctx = getInitialQueryId ctx"
  shows "((\<forall>n \<in> set (concat (shards st)). \<not> (is_local n \<and> port n = getTCPPort ctx)) \<longrightarrow>
            read E st cols md q ctx stage bs =
              (Inl (Thrown (Exception ''Could not find outself in cluster '' LOGICAL_ERROR)), st))
       \<and> (\<forall>n spre sreplicas spost sothers pre te post f l a0 b args others q' header.
            shards st = spre @ sreplicas # spost
            \<and> filter (\<lambda>n. is_local n \<and> port n = getTCPPort ctx) sreplicas = n # sothers
            \<and> filter (\<lambda>n. is_local n \<and> port n = getTCPPort ctx) (concat spost) = []
            \<and> getHash E n \<noteq> []
            \<and> tables q = pre @ te # post
            \<and> (\<forall>t \<in> set pre. \<exists>g. table_function t = Some g \<and> getTreeHash E g \<noteq> tree_hash st)
            \<and> table_function te
                = Some (ASTNode f (ASTNode l (a0 # ASTLiteral (StringField b) # args) # others))
            \<and> getTreeHash E (ASTNode f (ASTNode l (a0 # ASTLiteral (StringField b) # args) # others))
                = tree_hash st
            \<and> q' = q\<lparr>tables := pre @ te\<lparr>table_function :=
                       Some (ASTNode f (ASTNode l (a0 # ASTLiteral (StringField (getHash E n)) # args)
                               # others))\<rparr>
                     # post\<rparr>
            \<and> queryToString E q' \<noteq> []
            \<and> analyzeSampleBlock E q' = Inr header
            \<and> metadata_check E cols = None
          \<longrightarrow> read E st cols md q ctx stage bs =
                (Inr (UnitedPipes
                   (map (\<lambda>node. \<lparr>stream_connection = node_connection ctx node,
                                  stream_query = queryToString E q',
                                  stream_header = header,
                                  stream_scalars = getScalars ctx,
                                  stream_stage = stage\<rparr>) (concat (shards st)))),
                 st\<lparr>connections := connections st
                      @ map (node_connection ctx) (concat (shards st))\<rparr>))
       \<and> (\<forall>p st'. read E st cols md q ctx stage bs = (Inr p, st') \<longrightarrow>
            (\<exists>n \<in> set (concat (shards st)). is_local n \<and> port n = getTCPPort ctx \<and>
               (\<exists>q' te tf.
                   rewrite_loop E (tree_hash st) (getHash E n) q [] (tables q)
                     = Inr (q', queryToString E q')
                 \<and> te \<in> set (tables q') \<and> table_function te = Some tf
                 \<and> bucket_of tf = Some (getHash E n)
                 \<and> pipe_queries p = map (\<lambda>node. queryToString E q') (concat (shards st)))))
       \<and> (\<forall>n. filter (\<lambda>n. is_local n \<and> port n = getTCPPort ctx) (concat (shards st)) = [n] \<longrightarrow>
            self_in_shards E (getTCPPort ctx) (shards st) [] = getHash E n)"
proof -
  note basic = self_resolution_returned [OF assms, of st E cols md q stage bs]
  have embed: "read E st cols md q ctx stage bs =
                (Inr (UnitedPipes
                   (map (\<lambda>node. \<lparr>stream_connection = node_connection ctx node,
                                  stream_query = queryToString E q',
                                  stream_header = header,
                                  stream_scalars = getScalars ctx,
                                  stream_stage = stage\<rparr>) (concat (shards st)))),
                 st\<lparr>connections := connections st
                      @ map (node_connection ctx) (concat (shards st))\<rparr>)"
    if "shards st = spre @ sreplicas # spost
            \<and> filter (\<lambda>n. is_local n \<and> port n = getTCPPort ctx) sreplicas = n # sothers
            \<and> filter (\<lambda>n. is_local n \<and> port n = getTCPPort ctx) (concat spost) = []
            \<and> getHash E n \<noteq> []
            \<and> tables q = pre @ te # post
            \<and> (\<forall>t \<in> set pre. \<exists>g. table_function t = Some g \<and> getTreeHash E g \<noteq> tree_hash st)
            \<and> table_function te
                = Some (ASTNode f (ASTNode l (a0 # ASTLiteral (StringField b) # args) # others))
            \<and> getTreeHash E (ASTNode f (ASTNode l (a0 # ASTLiteral (StringField b) # args) # others))
                = tree_hash st
            \<and> q' = q\<lparr>tables := pre @ te\<lparr>table_function :=
                       Some (ASTNode f (ASTNode l (a0 # ASTLiteral (StringField (getHash E n)) # args)
                               # others))\<rparr>
                     # post\<rparr>
            \<and> queryToString E q' \<noteq> []
            \<and> analyzeSampleBlock E q' = Inr header
            \<and> metadata_check E cols = None"
    for n spre sreplicas spost sothers pre te post f l a0 b args others q' header
  proof (rule read_embeds_self_hash [OF assms])
    show "shards st = spre @ sreplicas # spost"
      using that by blast
    show "filter (\<lambda>n. is_local n \<and> port n = getTCPPort ctx) sreplicas = n # sothers"
      using that by blast
    show "filter (\<lambda>n. is_local n \<and> port n = getTCPPort ctx) (concat spost) = []"
      using that by blast
    show "getHash E n \<noteq> []"
      using that by blast
    show "tables q = pre @ te # post"
      using that by blast
    show "\<forall>t \<in> set pre. \<exists>g. table_function t = Some g \<and> getTreeHash E g \<noteq> tree_hash st"
      using that by blast
    show "table_function te
            = Some (ASTNode f (ASTNode l (a0 # ASTLiteral (StringField b) # args) # others))"
      using that by blast
    show "getTreeHash E (ASTNode f (ASTNode l (a0 # ASTLiteral (StringField b) # args) # others))
            = tree_hash st"
      using that by blast
    show "q' = q\<lparr>tables := pre @ te\<lparr>table_function :=
                       Some (ASTNode f (ASTNode l (a0 # ASTLiteral (StringField (getHash E n)) # args)
                               # others))\<rparr>
                     # post\<rparr>"
      using that by blast
    show "queryToString E q' \<noteq> []"
      using that by blast
    show "analyzeSampleBlock E q' = Inr header"
      using that by blast
    show "metadata_check E cols = None"
      using that by blast
  qed
  show ?thesis
  proof (intro conjI)
    show "(\<forall>n \<in> set (concat (shards st)). \<not> (is_local n \<and> port n = getTCPPort ctx)) \<longrightarrow>
            read E st cols md q ctx stage bs =
              (Inl (Thrown (Exception ''Could not find outself in cluster '' LOGICAL_ERROR)), st)"
      using basic by (rule conjunct1)
    show "\<forall>p st'. read E st cols md q ctx stage bs = (Inr p, st') \<longrightarrow>
            (\<exists>n \<in> set (concat (shards st)). is_local n \<and> port n = getTCPPort ctx \<and>
               (\<exists>q' te tf.
                   rewrite_loop E (tree_hash st) (getHash E n) q [] (tables q)
                     = Inr (q', queryToString E q')
                 \<and> te \<in> set (tables q') \<and> table_function te = Some tf
                 \<and> bucket_of tf = Some (getHash E n)
                 \<and> pipe_queries p = map (\<lambda>node. queryToString E q') (concat (shards st))))"
      using basic [THEN conjunct2] by (rule conjunct1)
    show "\<forall>n. filter (\<lambda>n. is_local n \<and> port n = getTCPPort ctx) (concat (shards st)) = [n] \<longrightarrow>
            self_in_shards E (getTCPPort ctx) (shards st) [] = getHash E n"
      using basic [THEN conjunct2] by (rule conjunct2)
    show "\<forall>n spre sreplicas spost sothers pre te post f l a0 b args others q' header.
            shards st = spre @ sreplicas # spost
            \<and> filter (\<lambda>n. is_local n \<and> port n = getTCPPort ctx) sreplicas = n # sothers
            \<and> filter (\<lambda>n. is_local n \<and> port n = getTCPPort ctx) (concat spost) = []
            \<and> getHash E n \<noteq> []
            \<and> tables q = pre @ te # post
            \<and> (\<forall>t \<in> set pre. \<exists>g. table_function t = Some g \<and> getTreeHash E g \<noteq> tree_hash st)
            \<and> table_function te
                = Some (ASTNode f (ASTNode l (a0 # ASTLiteral (StringField b) # args) # others))
            \<and> getTreeHash E (ASTNode f (ASTNode l (a0 # ASTLiteral (StringField b) # args) # others))
                = tree_hash st
            \<and> q' = q\<lparr>tables := pre @ te\<lparr>table_function :=
                       Some (ASTNode f (ASTNode l (a0 # ASTLiteral (StringField (getHash E n)) # args)
                               # others))\<rparr>
                     # post\<rparr>
            \<and> queryToString E q' \<noteq> []
            \<and> analyzeSampleBlock E q' = Inr header
            \<and> metadata_check E cols = None
          \<longrightarrow> read E st cols md q ctx stage bs =
                (Inr (UnitedPipes
                   (map (\<lambda>node. \<lparr>stream_connection = node_connection ctx node,
                                  stream_query = queryToString E q',
                                  stream_header = header,
                                  stream_scalars = getScalars ctx,
                                  stream_stage = stage\<rparr>) (concat (shards st)))),
                 st\<lparr>connections := connections st
                      @ map (node_connection ctx) (concat (shards st))\<rparr>)"
      using embed by (intro allI impI)
  qed
qed

theorem self_resolution_fails_fast_witness:
  "getCurrentQueryId (example_context ''q1'') = getInitialQueryId (example_context ''q1'')
   \<and> is_local node1 \<and> port node1 = getTCPPort (example_context ''q1'')
   \<and> \<not> is_local node2 \<and> \<not> is_local node3
   \<and> read (example_env example_tree_hash no_key_replies)
        (example_storage [[node2], [node3]] []) [''c1''] example_metadata
        (example_query [function_expression (s3_call ''real-bucket'')]) (example_context ''q1'')
        Complete 8192
      = (Inl (Thrown (Exception ''Could not find outself in cluster '' LOGICAL_ERROR)),
         example_storage [[node2], [node3]] [])
   \<and> getHash (example_env example_tree_hash no_key_replies) node1 = ''H-n1''
   \<and> self_in_shards (example_env example_tree_hash no_key_replies) 9000
        [[node1], [node2]] [] = ''H-n1''
   \<and> bucket_of (s3_call ''real-bucket'') = Some ''real-bucket''
   \<and> getTreeHash (example_env example_tree_hash no_key_replies) (s3_call ''real-bucket'')
        = tree_hash (example_storage [[node1], [node2]] [])
   \<and> \<not> isl (fst
        (read (example_env example_tree_hash no_key_replies)
           (example_storage [[node1], [node2]] []) [''c1''] example_metadata
           (example_query [function_expression (s3_call ''real-bucket'')])
           (example_context ''q1'') Complete 8192))
   \<and> pipe_queries (projr (fst
        (read (example_env example_tree_hash no_key_replies)
           (example_storage [[node1], [node2]] []) [''c1''] example_metadata
           (example_query [function_expression (s3_call ''real-bucket'')])
           (example_context ''q1'') Complete 8192)))
      = [''FROM s3Distributed(args([cluster1][H-n1][CSV]))'',
         ''FROM s3Distributed(args([cluster1][H-n1][CSV]))'']"
proof -
  let ?E = "example_env example_tree_hash no_key_replies"
  let ?ctx = "example_context ''q1''"
  let ?st = "example_storage [[node1], [node2]] []"
  let ?q = "example_query [function_expression (s3_call ''real-bucket'')]"
  let ?q' = "?q\<lparr>tables := [] @ (function_expression (s3_call ''real-bucket''))\<lparr>table_function :=
                   Some (ASTNode ''s3Distributed''
                     (ASTNode ''args'' (ASTLiteral (StringField ''cluster1'')
                        # ASTLiteral (StringField (getHash ?E node1))
                        # [ASTLiteral (StringField ''CSV'')]) # []))\<rparr>
               # []\<rparr>"
  have i: "getCurrentQueryId ?ctx = getInitialQueryId ?ctx"
    by (simp add: example_context_def)
  have loc: "is_local node1" "port node1 = getTCPPort ?ctx" "\<not> is_local node2"
    "\<not> is_local node3"
    by (simp_all add: node1_def node2_def node3_def example_context_def)
  have none: "\<forall>n \<in> set (concat (shards (example_storage [[node2], [node3]] []))).
                \<not> (is_local n \<and> port n = getTCPPort ?ctx)"
    using loc by (simp add: example_storage_def)
  have one: "filter (\<lambda>n. is_local n \<and> port n = getTCPPort ?ctx) (concat (shards ?st)) = [node1]"
    using loc by (simp add: example_storage_def)
  note th = self_resolution_fails_fast [OF i, where E = ?E and cols = "[''c1'']"
              and md = example_metadata and stage = Complete and bs = 8192]
  from th [where st = "example_storage [[node2], [node3]] []" and q = ?q, THEN conjunct1] none
  have a: "read ?E (example_storage [[node2], [node3]] []) [''c1''] example_metadata ?q ?ctx
             Complete 8192
      = (Inl (Thrown (Exception ''Could not find outself in cluster '' LOGICAL_ERROR)),
         example_storage [[node2], [node3]] [])"
    by blast
  have h: "getHash ?E node1 = ''H-n1''"
    by (simp add: example_env_def node1_def)
  from th [where st = ?st and q = ?q, THEN conjunct2, THEN conjunct2, THEN conjunct2] one
  have "self_in_shards ?E (getTCPPort ?ctx) (shards ?st) [] = getHash ?E node1"
    by blast
  then have b: "self_in_shards ?E 9000 [[node1], [node2]] [] = ''H-n1''"
    by (simp add: h example_storage_def example_context_def)
  have bucket: "bucket_of (s3_call ''real-bucket'') = Some ''real-bucket''"
    by (simp add: bucket_of_def s3_call_def)
  have th1: "getTreeHash ?E (s3_call ''real-bucket'') = tree_hash ?st"
    by (simp add: example_env_def example_tree_hash_def example_storage_def)
  have fmt: "queryToString ?E ?q' = ''FROM s3Distributed(args([cluster1][H-n1][CSV]))''"
    by (simp add: h) (simp add: example_env_def example_format_def example_query_def
          function_expression_def)
  have prem: "shards ?st = [] @ [node1] # [[node2]]
            \<and> filter (\<lambda>n. is_local n \<and> port n = getTCPPort ?ctx) [node1] = node1 # []
            \<and> filter (\<lambda>n. is_local n \<and> port n = getTCPPort ?ctx) (concat [[node2]]) = []
            \<and> getHash ?E node1 \<noteq> []
            \<and> tables ?q = [] @ function_expression (s3_call ''real-bucket'') # []
            \<and> (\<forall>t \<in> set []. \<exists>g. table_function t = Some g \<and> getTreeHash ?E g \<noteq> tree_hash ?st)
            \<and> table_function (function_expression (s3_call ''real-bucket''))
                = Some (ASTNode ''s3Distributed''
                     (ASTNode ''args'' (ASTLiteral (StringField ''cluster1'')
                        # ASTLiteral (StringField ''real-bucket'')
                        # [ASTLiteral (StringField ''CSV'')]) # []))
            \<and> getTreeHash ?E (ASTNode ''s3Distributed''
                     (ASTNode ''args'' (ASTLiteral (StringField ''cluster1'')
                        # ASTLiteral (StringField ''real-bucket'')
                        # [ASTLiteral (StringField ''CSV'')]) # []))
                = tree_hash ?st
            \<and> ?q' = ?q'
            \<and> queryToString ?E ?q' \<noteq> []
            \<and> analyzeSampleBlock ?E ?q' = Inr [''c1'']
            \<and> metadata_check ?E [''c1''] = None"
    using loc h th1 fmt
    by (simp add: example_storage_def example_query_def function_expression_def s3_call_def)
       (simp add: example_env_def)
  from th [where st = ?st and q = ?q, THEN conjunct2, THEN conjunct1, rule_format, OF prem]
  have ret: "read ?E ?st [''c1''] example_metadata ?q ?ctx Complete 8192 =
           (Inr (UnitedPipes
              (map (\<lambda>node. \<lparr>stream_connection = node_connection ?ctx node,
                             stream_query = queryToString ?E ?q',
                             stream_header = [''c1''],
                             stream_scalars = getScalars ?ctx,
                             stream_stage = Complete\<rparr>) (concat (shards ?st)))),
            ?st\<lparr>connections := connections ?st @ map (node_connection ?ctx) (concat (shards ?st))\<rparr>)" .
  have c: "\<not> isl (fst (read ?E ?st [''c1''] example_metadata ?q ?ctx Complete 8192))"
    and d: "pipe_queries (projr (fst (read ?E ?st [''c1''] example_metadata ?q ?ctx Complete 8192)))
            = [''FROM s3Distributed(args([cluster1][H-n1][CSV]))'',
               ''FROM s3Distributed(args([cluster1][H-n1][CSV]))'']"
    unfolding ret fmt by (simp_all add: example_storage_def comp_def)
  from i loc a h b bucket th1 c d show ?thesis
    by blast
qed

text \<open>
  C1, as the code has it. The initiator has found itself in the topology under the hash
  \<open>h\<close>. In the query, the first table expression whose table function has the stored
  tree hash is reached through table expressions that carry table functions with other
  tree hashes, and the second argument of that function is a string literal. Then the
  rewrite overwrites that literal with \<open>h\<close> and changes nothing else in the query: the
  table expressions before and after it, a later table function with the same tree hash
  among them, are as they were. The text of the rewritten tree is what every stream
  carries, one stream and one connection for every node of the topology, provided the
  analysis of the rewritten query and the final check of the columns do not throw.
\<close>

theorem read_rewrites_first_matching_bucket:
  assumes "getCurrentQueryId ctx = getInitialQueryId ctx"
      and "self_in_shards E (getTCPPort ctx) (shards st) [] = h"
      and "h \<noteq> []"
      and "tables q = pre @ te # post"
      and "\<forall>t \<in> set pre. \<exists>g. table_function t = Some g \<and> getTreeHash E g \<noteq> tree_hash st"
      and "table_function te
             = Some (ASTNode f (ASTNode l (a0 # ASTLiteral (StringField b) # args) # others))"
      and "getTreeHash E (ASTNode f (ASTNode l (a0 # ASTLiteral (StringField b) # args) # others))
             = tree_hash st"
      and "q' = q\<lparr>tables := pre @ te\<lparr>table_function :=
                  Some (ASTNode f (ASTNode l (a0 # ASTLiteral (StringField h) # args) # others))\<rparr>
                # post\<rparr>"
      and "queryToString E q' \<noteq> []"
      and "analyzeSampleBlock E q' = Inr header"
      and "metadata_check E cols = None"
  shows "read E st cols md q ctx stage bs =
           (Inr (UnitedPipes
              (map (\<lambda>node. \<lparr>stream_connection = node_connection ctx node,
                             stream_query = queryToString E q',
                             stream_header = header,
                             stream_scalars = getScalars ctx,
                             stream_stage = stage\<rparr>) (concat (shards st)))),
            st\<lparr>connections := connections st @ map (node_connection ctx) (concat (shards st))\<rparr>)"
proof -
  have "rewrite_loop E (tree_hash st) h q [] (pre @ te # post) = Inr (q', queryToString E q')"
    using rewrite_loop_hit [OF assms(5) assms(6) assms(7) set_bucket_literal, of h q "[]" post]
      assms(8)
    by simp
  then have loop: "rewrite_loop E (tree_hash st) h q [] (tables q) = Inr (q', queryToString E q')"
    using assms(4) by simp
  from read_initiator_rewritten [OF assms(1) assms(2) assms(3) loop assms(9) assms(10),
         of cols md stage bs]
  show ?thesis
    using assms(11) by simp
qed

theorem read_rewrites_first_matching_bucket_witness:
  "self_in_shards (example_env example_tree_hash no_key_replies) 9000 [[node1], [node2]] []
     = ''H-n1''
   \<and> getTreeHash (example_env example_tree_hash no_key_replies) (s3_call ''other'') = (0, 0)
   \<and> getTreeHash (example_env example_tree_hash no_key_replies) (s3_call ''real-bucket'') = (1, 1)
   \<and> pipe_queries (projr (fst
        (read (example_env example_tree_hash no_key_replies)
           (example_storage [[node1], [node2]] []) [''c1''] example_metadata
           (example_query [function_expression (s3_call ''other''),
                           function_expression (s3_call ''real-bucket''), plain_table])
           (example_context ''q1'') Complete 8192)))
     = [''FROM s3Distributed(args([cluster1][other][CSV])) s3Distributed(args([cluster1][H-n1][CSV])) t'',
        ''FROM s3Distributed(args([cluster1][other][CSV])) s3Distributed(args([cluster1][H-n1][CSV])) t'']"
proof -
  let ?E = "example_env example_tree_hash no_key_replies"
  let ?st = "example_storage [[node1], [node2]] []"
  let ?ctx = "example_context ''q1''"
  let ?q = "example_query [function_expression (s3_call ''other''),
                           function_expression (s3_call ''real-bucket''), plain_table]"
  let ?q' = "?q\<lparr>tables := [function_expression (s3_call ''other'')]
               @ (function_expression (s3_call ''real-bucket''))\<lparr>table_function :=
                   Some (ASTNode ''s3Distributed''
                     (ASTNode ''args'' (ASTLiteral (StringField ''cluster1'')
                        # ASTLiteral (StringField ''H-n1'')
                        # [ASTLiteral (StringField ''CSV'')]) # []))\<rparr>
               # [plain_table]\<rparr>"
  have i: "getCurrentQueryId ?ctx = getInitialQueryId ?ctx"
    by (simp add: example_context_def)
  have self: "self_in_shards ?E (getTCPPort ?ctx) (shards ?st) [] = ''H-n1''"
    by (simp add: example_env_def example_context_def example_storage_def node1_def node2_def)
  have ne: "''H-n1'' \<noteq> []"
    by simp
  have tabs: "tables ?q = [function_expression (s3_call ''other'')]
                @ function_expression (s3_call ''real-bucket'') # [plain_table]"
    by (simp add: example_query_def)
  have h0: "getTreeHash ?E (s3_call ''other'') = (0, 0)"
    and h1: "getTreeHash ?E (s3_call ''real-bucket'') = (1, 1)"
    by (simp_all add: example_env_def example_tree_hash_def s3_call_def)
  have pre: "\<forall>t \<in> set [function_expression (s3_call ''other'')].
               \<exists>g. table_function t = Some g \<and> getTreeHash ?E g \<noteq> tree_hash ?st"
    using h0 by (simp add: function_expression_def example_storage_def)
  have te: "table_function (function_expression (s3_call ''real-bucket''))
              = Some (ASTNode ''s3Distributed''
                     (ASTNode ''args'' (ASTLiteral (StringField ''cluster1'')
                        # ASTLiteral (StringField ''real-bucket'')
                        # [ASTLiteral (StringField ''CSV'')]) # []))"
    by (simp add: function_expression_def s3_call_def)
  have th: "getTreeHash ?E (ASTNode ''s3Distributed''
                     (ASTNode ''args'' (ASTLiteral (StringField ''cluster1'')
                        # ASTLiteral (StringField ''real-bucket'')
                        # [ASTLiteral (StringField ''CSV'')]) # [])) = tree_hash ?st"
    using h1 by (simp add: s3_call_def example_storage_def)
  have fmt: "queryToString ?E ?q'
      = ''FROM s3Distributed(args([cluster1][other][CSV])) s3Distributed(args([cluster1][H-n1][CSV])) t''"
    by (simp add: example_env_def example_format_def example_query_def function_expression_def
          plain_table_def s3_call_def)
  then have nonempty: "queryToString ?E ?q' \<noteq> []"
    by simp
  have chk: "metadata_check ?E [''c1''] = None"
    by (simp add: example_env_def)
  have ana: "analyzeSampleBlock ?E ?q' = Inr [''c1'']"
    by (simp add: example_env_def)
  from read_rewrites_first_matching_bucket [OF i self ne tabs pre te th refl nonempty ana chk,
         of example_metadata Complete 8192]
  have "pipe_queries (projr (fst (read ?E ?st [''c1''] example_metadata ?q ?ctx Complete 8192)))
          = [queryToString ?E ?q', queryToString ?E ?q']"
    by (simp add: example_storage_def comp_def)
  with fmt self h0 h1 show ?thesis
    by (simp add: example_context_def example_storage_def)
qed

text \<open>
  Against C1 as stated: the query holds the table function with the stored tree hash
  twice. Only the first is rewritten; the second keeps the bucket \<open>real-bucket\<close>, and
  the text sent to the replicas contains it.
\<close>

theorem second_invocation_counterexample:
  "getTreeHash (example_env example_tree_hash no_key_replies) (s3_call ''real-bucket'')
     = tree_hash (example_storage [[node1], [node2]] [])
   \<and> bucket_of (s3_call ''real-bucket'') = Some ''real-bucket''
   \<and> \<not> isl (fst
        (read (example_env example_tree_hash no_key_replies)
           (example_storage [[node1], [node2]] []) [''c1''] example_metadata
           (example_query [function_expression (s3_call ''real-bucket''),
                           function_expression (s3_call ''real-bucket'')])
           (example_context ''q1'') Complete 8192))
   \<and> pipe_queries (projr (fst
        (read (example_env example_tree_hash no_key_replies)
           (example_storage [[node1], [node2]] []) [''c1''] example_metadata
           (example_query [function_expression (s3_call ''real-bucket''),
                           function_expression (s3_call ''real-bucket'')])
           (example_context ''q1'') Complete 8192)))
     = [''FROM s3Distributed(args([cluster1][H-n1][CSV])) s3Distributed(args([cluster1][real-bucket][CSV]))'',
        ''FROM s3Distributed(args([cluster1][H-n1][CSV])) s3Distributed(args([cluster1][real-bucket][CSV]))'']"
  by (simp add: read_def set_bucket_def bucket_of_def example_env_def example_context_def
        example_storage_def example_query_def function_expression_def s3_call_def
        example_tree_hash_def example_format_def node1_def node2_def node_connection_def Let_def)

text \<open>
  C6, as the code has it. The initiator has found itself in the topology, every table
  expression of the query carries a table function, and the formatter never yields the
  empty text. Then \<open>read\<close> throws \<open>No table function\<close>, a \<open>LOGICAL_ERROR\<close>, exactly
  when no table function of the query has the stored tree hash; and when it throws it the
  storage, and so its connections, are as they were.
\<close>

theorem read_no_table_function_iff:
  assumes "getCurrentQueryId ctx = getInitialQueryId ctx"
      and "self_in_shards E (getTCPPort ctx) (shards st) [] \<noteq> []"
      and "\<forall>t \<in> set (tables q). table_function t \<noteq> None"
      and "\<forall>q. queryToString E q \<noteq> []"
  shows "(fst (read E st cols md q ctx stage bs)
            = Inl (Thrown (Exception ''No table function'' LOGICAL_ERROR))
          \<longleftrightarrow> (\<forall>t \<in> set (tables q). \<forall>g. table_function t = Some g
                 \<longrightarrow> getTreeHash E g \<noteq> tree_hash st))
       \<and> (fst (read E st cols md q ctx stage bs)
            = Inl (Thrown (Exception ''No table function'' LOGICAL_ERROR))
          \<longrightarrow> snd (read E st cols md q ctx stage bs) = st)"
proof -
  define h where "h = self_in_shards E (getTCPPort ctx) (shards st) []"
  have h: "h \<noteq> []"
    using assms(2) by (simp add: h_def)
  let ?none = "\<forall>t \<in> set (tables q). \<forall>g. table_function t = Some g
                 \<longrightarrow> getTreeHash E g \<noteq> tree_hash st"
  let ?err = "Inl (Thrown (Exception ''No table function'' LOGICAL_ERROR)) :: failure + pipe"
  have miss: "read E st cols md q ctx stage bs = (?err, st)" if none: ?none
  proof -
    from none assms(3)
    have "\<forall>t \<in> set (tables q). \<exists>g. table_function t = Some g \<and> getTreeHash E g \<noteq> tree_hash st"
      by fastforce
    then have "rewrite_loop E (tree_hash st) h q [] (tables q) = Inr (q, [])"
      by (rule rewrite_loop_miss)
    with assms(1) h show ?thesis
      by (simp add: read_def h_def)
  qed
  have hit: ?none if err: "fst (read E st cols md q ctx stage bs) = ?err"
  proof (cases "rewrite_loop E (tree_hash st) h q [] (tables q)")
    case (Inl f)
    with err assms(1) h have "f = Thrown (Exception ''No table function'' LOGICAL_ERROR)"
      by (simp add: read_def h_def)
    moreover have "f \<noteq> Thrown (Exception ''No table function'' LOGICAL_ERROR)"
      using Inl by (rule rewrite_loop_Inl)
    ultimately show ?thesis
      by simp
  next
    case (Inr r)
    then obtain q' rq where loop: "rewrite_loop E (tree_hash st) h q [] (tables q) = Inr (q', rq)"
      by (cases r) simp
    from rewrite_loop_cases [OF loop] show ?thesis
    proof
      assume "q' = q \<and> rq = []
          \<and> (\<forall>t \<in> set (tables q). \<exists>g. table_function t = Some g \<and> getTreeHash E g \<noteq> tree_hash st)"
      then show ?thesis
        by fastforce
    next
      assume "\<exists>pre te post tf tf'. tables q = pre @ te # post
            \<and> (\<forall>t \<in> set pre. \<exists>g. table_function t = Some g \<and> getTreeHash E g \<noteq> tree_hash st)
            \<and> table_function te = Some tf \<and> getTreeHash E tf = tree_hash st
            \<and> set_bucket h tf = Inr tf'
            \<and> q' = q\<lparr>tables := [] @ pre @ te\<lparr>table_function := Some tf'\<rparr> # post\<rparr>
            \<and> rq = queryToString E q'"
      then have "rq = queryToString E q'"
        by blast
      then have "rq \<noteq> []"
        using assms(4) by simp
      with err loop assms(1) h show ?thesis
        by (auto simp add: read_def h_def Let_def split: option.splits prod.splits sum.splits)
    qed
  qed
  from miss hit show ?thesis
    by auto
qed

theorem read_no_table_function_iff_witness:
  "getCurrentQueryId (example_context ''q1'') = getInitialQueryId (example_context ''q1'')
   \<and> self_in_shards (example_env example_tree_hash no_key_replies)
        (getTCPPort (example_context ''q1''))
        (shards (example_storage [[node1], [node2]] [])) [] = ''H-n1''
   \<and> table_function (function_expression (s3_call ''other'')) = Some (s3_call ''other'')
   \<and> (\<forall>q. queryToString (example_env example_tree_hash no_key_replies) q \<noteq> [])
   \<and> getTreeHash (example_env example_tree_hash no_key_replies) (s3_call ''other'')
        \<noteq> tree_hash (example_storage [[node1], [node2]] [])
   \<and> read (example_env example_tree_hash no_key_replies)
        (example_storage [[node1], [node2]] []) [''c1''] example_metadata
        (example_query [function_expression (s3_call ''other'')]) (example_context ''q1'')
        Complete 8192
      = (Inl (Thrown (Exception ''No table function'' LOGICAL_ERROR)),
         example_storage [[node1], [node2]] [])"
proof -
  let ?E = "example_env example_tree_hash no_key_replies"
  let ?st = "example_storage [[node1], [node2]] []"
  let ?ctx = "example_context ''q1''"
  let ?q = "example_query [function_expression (s3_call ''other'')]"
  have i: "getCurrentQueryId ?ctx = getInitialQueryId ?ctx"
    by (simp add: example_context_def)
  have self: "self_in_shards ?E (getTCPPort ?ctx) (shards ?st) [] = ''H-n1''"
    by (simp add: example_env_def example_context_def example_storage_def node1_def node2_def)
  then have found: "self_in_shards ?E (getTCPPort ?ctx) (shards ?st) [] \<noteq> []"
    by simp
  have tf: "table_function (function_expression (s3_call ''other'')) = Some (s3_call ''other'')"
    by (simp add: function_expression_def)
  then have all: "\<forall>t \<in> set (tables ?q). table_function t \<noteq> None"
    by (simp add: example_query_def)
  have fmt: "\<forall>q. queryToString ?E q \<noteq> []"
    by (simp add: example_env_def example_format_def)
  have other: "getTreeHash ?E (s3_call ''other'') \<noteq> tree_hash ?st"
    by (simp add: example_env_def example_tree_hash_def example_storage_def s3_call_def)
  with tf have none: "\<forall>t \<in> set (tables ?q). \<forall>g. table_function t = Some g
                 \<longrightarrow> getTreeHash ?E g \<noteq> tree_hash ?st"
    by (simp add: example_query_def)
  note th = read_no_table_function_iff [OF i found all fmt, of "[''c1'']" example_metadata
              Complete 8192]
  from th none
  have "fst (read ?E ?st [''c1''] example_metadata ?q ?ctx Complete 8192)
          = Inl (Thrown (Exception ''No table function'' LOGICAL_ERROR))"
    and "snd (read ?E ?st [''c1''] example_metadata ?q ?ctx Complete 8192) = ?st"
    by blast+
  then have "read ?E ?st [''c1''] example_metadata ?q ?ctx Complete 8192
      = (Inl (Thrown (Exception ''No table function'' LOGICAL_ERROR)), ?st)"
    by (simp add: prod_eq_iff)
  with i self tf fmt other show ?thesis
    by blast
qed

text \<open>
  Against C6 as stated, at two queries on the initiator. In the first no table function
  has the stored tree hash and the second table expression is a plain table, with no
  table function: \<open>read\<close> passes the first table function and then dereferences the null
  pointer of the second, and never reaches the test that throws \<open>No table function\<close>.
  In the second the query holds the table function with the stored tree hash, and the
  topology holds no local address: \<open>read\<close> throws a \<open>LOGICAL_ERROR\<close> all the same.
\<close>

theorem no_table_function_counterexample:
  "getTreeHash (example_env example_tree_hash no_key_replies) (s3_call ''other'')
     \<noteq> tree_hash (example_storage [[node1], [node2]] [])
   \<and> table_function plain_table = None
   \<and> read (example_env example_tree_hash no_key_replies)
        (example_storage [[node1], [node2]] []) [''c1''] example_metadata
        (example_query [function_expression (s3_call ''other''), plain_table])
        (example_context ''q1'') Complete 8192
      = (Inl UndefinedBehaviour, example_storage [[node1], [node2]] [])
   \<and> getTreeHash (example_env example_tree_hash no_key_replies) (s3_call ''real-bucket'')
     = tree_hash (example_storage [[node2], [node3]] [])
   \<and> read (example_env example_tree_hash no_key_replies)
        (example_storage [[node2], [node3]] []) [''c1''] example_metadata
        (example_query [function_expression (s3_call ''real-bucket'')])
        (example_context ''q1'') Complete 8192
      = (Inl (Thrown (Exception ''Could not find outself in cluster '' LOGICAL_ERROR)),
         example_storage [[node2], [node3]] [])"
  by (simp add: read_def example_env_def example_context_def example_storage_def
        example_query_def function_expression_def plain_table_def s3_call_def
        example_tree_hash_def node1_def node2_def node3_def Let_def)

section \<open>Claims about the initiator's answers\<close>

lemma serve_pulls_workers: "map fst (serve_pulls ws keys) = ws"
  by (induction ws arbitrary: keys) simp_all

lemma serve_pulls_replies:
  "map snd (serve_pulls ws keys) = take (length ws) keys @ replicate (length ws - length keys) []"
proof (induction ws arbitrary: keys)
  case Nil
  then show ?case by simp
next
  case (Cons w ws)
  show ?case
  proof (cases keys)
    case Nil
    with Cons.IH [of "[]"] show ?thesis
      by (simp add: serve_pull_def)
  next
    case (Cons k rest)
    with Cons.IH [of rest] show ?thesis
      by (simp add: serve_pull_def)
  qed
qed

lemma serve_pulls_count:
  "length (filter (\<lambda>r. snd r = k) (serve_pulls ws keys))
     = length (filter (\<lambda>x. x = k) (map snd (serve_pulls ws keys)))"
  by (simp add: filter_map comp_def)

lemma filter_absent: "k \<notin> set xs \<Longrightarrow> filter (\<lambda>x. x = k) xs = []"
  by (induction xs) auto

lemma distinct_count_le_1:
  "distinct xs \<Longrightarrow> length (filter (\<lambda>x. x = k) xs) \<le> Suc 0"
  by (induction xs) (auto simp add: filter_absent)

lemma distinct_count_member:
  "distinct xs \<Longrightarrow> k \<in> set xs \<Longrightarrow> length (filter (\<lambda>x. x = k) xs) = Suc 0"
  by (induction xs) (auto simp add: filter_absent)

text \<open>
  C4. The initiator holds distinct, non-empty keys, and the pulls of any number of
  workers arrive in any order \<open>ws\<close>. Every pull is answered to the worker that made it;
  no key is the answer to more than one pull; once as many pulls have been made as there
  are keys, every key has been the answer to exactly one pull; pull number \<open>i\<close> is
  answered with the \<open>i\<close>-th key, and every pull after the keys are used up is answered
  with the empty string.
\<close>

theorem serve_pulls_exactly_once:
  assumes "distinct keys" and "[] \<notin> set keys"
  shows "map fst (serve_pulls ws keys) = ws
       \<and> (\<forall>k \<in> set keys. length (filter (\<lambda>r. snd r = k) (serve_pulls ws keys)) \<le> 1)
       \<and> (length keys \<le> length ws \<longrightarrow>
            (\<forall>k \<in> set keys. length (filter (\<lambda>r. snd r = k) (serve_pulls ws keys)) = 1))
       \<and> (\<forall>i < length ws. i < length keys \<longrightarrow> snd (serve_pulls ws keys ! i) = keys ! i)
       \<and> (\<forall>i < length ws. length keys \<le> i \<longrightarrow> snd (serve_pulls ws keys ! i) = [])"
proof (intro conjI ballI impI allI)
  show "map fst (serve_pulls ws keys) = ws"
    by (rule serve_pulls_workers)
next
  fix k
  assume k: "k \<in> set keys"
  with assms(2) have "k \<noteq> []"
    by auto
  then have "filter (\<lambda>x. x = k) (map snd (serve_pulls ws keys))
               = filter (\<lambda>x. x = k) (take (length ws) keys)"
    by (auto simp add: serve_pulls_replies)
  moreover have "distinct (take (length ws) keys)"
    using assms(1) by simp
  ultimately show "length (filter (\<lambda>r. snd r = k) (serve_pulls ws keys)) \<le> 1"
    using distinct_count_le_1 [of "take (length ws) keys" k]
    by (simp add: serve_pulls_count)
next
  fix k
  assume all: "length keys \<le> length ws" and k: "k \<in> set keys"
  with assms(2) have "k \<noteq> []"
    by auto
  then have "filter (\<lambda>x. x = k) (map snd (serve_pulls ws keys))
               = filter (\<lambda>x. x = k) keys"
    using all by (auto simp add: serve_pulls_replies)
  then show "length (filter (\<lambda>r. snd r = k) (serve_pulls ws keys)) = 1"
    using distinct_count_member [OF assms(1) k]
    by (simp add: serve_pulls_count)
next
  fix i
  assume i: "i < length ws" "i < length keys"
  have len: "length (serve_pulls ws keys) = length ws"
    using serve_pulls_workers [of ws keys] by (metis length_map)
  have "snd (serve_pulls ws keys ! i) = map snd (serve_pulls ws keys) ! i"
    using i len by simp
  also have "\<dots> = keys ! i"
    using i by (simp add: serve_pulls_replies nth_append)
  finally show "snd (serve_pulls ws keys ! i) = keys ! i" .
next
  fix i
  assume i: "i < length ws" "length keys \<le> i"
  have len: "length (serve_pulls ws keys) = length ws"
    using serve_pulls_workers [of ws keys] by (metis length_map)
  have "snd (serve_pulls ws keys ! i) = map snd (serve_pulls ws keys) ! i"
    using i len by simp
  also have "\<dots> = []"
    using i by (simp add: serve_pulls_replies nth_append)
  finally show "snd (serve_pulls ws keys ! i) = []" .
qed

theorem serve_pulls_exactly_once_witness:
  "distinct [''a'', ''b'', ''c'', ''d'', ''e'']
   \<and> [] \<notin> set [''a'', ''b'', ''c'', ''d'', ''e'']
   \<and> serve_pulls [1, 2, 3, 3, 1, 2, 3, 1 :: nat] [''a'', ''b'', ''c'', ''d'', ''e'']
       = [(1, ''a''), (2, ''b''), (3, ''c''), (3, ''d''), (1, ''e''), (2, []), (3, []), (1, [])]
   \<and> length (filter (\<lambda>r. snd r = ''d'')
        (serve_pulls [1, 2, 3, 3, 1, 2, 3, 1 :: nat] [''a'', ''b'', ''c'', ''d'', ''e''])) = 1
   \<and> snd (serve_pulls [1, 2, 3, 3, 1, 2, 3, 1 :: nat] [''a'', ''b'', ''c'', ''d'', ''e''] ! 6) = []"
proof -
  let ?keys = "[''a'', ''b'', ''c'', ''d'', ''e'']"
  let ?ws = "[1, 2, 3, 3, 1, 2, 3, 1 :: nat]"
  have d: "distinct ?keys" and n: "[] \<notin> set ?keys"
    by simp_all
  note th = serve_pulls_exactly_once [OF d n, of ?ws]
  have one: "length (filter (\<lambda>r. snd r = ''d'') (serve_pulls ?ws ?keys)) = 1"
    using th [THEN conjunct2, THEN conjunct2, THEN conjunct1] by simp
  have last: "snd (serve_pulls ?ws ?keys ! 6) = []"
    using th [THEN conjunct2, THEN conjunct2, THEN conjunct2, THEN conjunct2, rule_format, of 6]
    by simp
  have run: "serve_pulls ?ws ?keys
       = [(1, ''a''), (2, ''b''), (3, ''c''), (3, ''d''), (1, ''e''), (2, []), (3, []), (1, [])]"
    by (simp add: serve_pull_def)
  from d n run one last show ?thesis
    by blast
qed

end
